theory Spec2Isabelle
  imports Complex_Main "HOL-Library.Sublist" "HOL-Library.Char_ord" "HOL-Library.List_Lexorder"
begin

section \<open>JavaScript values\<close>

text \<open>
  The handlers and the store adapter are untyped JavaScript: a request body is whatever
  JSON the client sent, a stored document is whatever was written. Values are therefore
  modelled as one datatype. An object is a map from property names to values; a name
  mapped to \<open>JUndefined\<close> is a property that is present and holds \<open>undefined\<close>.
  \<open>JDate t\<close> is a \<open>Date\<close> object for the instant \<open>t\<close> (milliseconds), \<open>JObjectId h\<close>
  an \<open>ObjectId\<close> whose hexadecimal rendering is \<open>h\<close>. A number is a double: a rational
  when it is finite (the program does no arithmetic, so rounding is left out), or one
  of the two infinities, or NaN. A string is a list of characters; strings are taken to
  be well-formed text, which JSON and the store carry unchanged.
\<close>

datatype number = Finite rat | PosInfinity | NegInfinity | NaN

datatype jsval =
    JUndefined
  | JNull
  | JBool bool
  | JNum number
  | JStr string
  | JDate nat
  | JObjectId string
  | JArr "jsval list"
  | JObj "string \<Rightarrow> jsval option"

type_synonym obj = "string \<Rightarrow> jsval option"

text \<open>\<open>!v\<close> is \<open>\<not> truthy v\<close>: the falsy values are undefined, null, false, 0, NaN and
  the empty string.\<close>

fun truthy :: "jsval \<Rightarrow> bool" where
  "truthy JUndefined = False"
| "truthy JNull = False"
| "truthy (JBool b) = b"
| "truthy (JNum n) = (n \<noteq> Finite 0 \<and> n \<noteq> NaN)"
| "truthy (JStr s) = (s \<noteq> [])"
| "truthy (JDate t) = True"
| "truthy (JObjectId h) = True"
| "truthy (JArr xs) = True"
| "truthy (JObj m) = True"

fun nullish :: "jsval \<Rightarrow> bool" where
  "nullish JUndefined = True"
| "nullish JNull = True"
| "nullish (JBool b) = False"
| "nullish (JNum n) = False"
| "nullish (JStr s) = False"
| "nullish (JDate t) = False"
| "nullish (JObjectId h) = False"
| "nullish (JArr xs) = False"
| "nullish (JObj m) = False"

fun isArray :: "jsval \<Rightarrow> bool" where
  "isArray (JArr xs) = True"
| "isArray JUndefined = False"
| "isArray JNull = False"
| "isArray (JBool b) = False"
| "isArray (JNum n) = False"
| "isArray (JStr s) = False"
| "isArray (JDate t) = False"
| "isArray (JObjectId h) = False"
| "isArray (JObj m) = False"

text \<open>\<open>typeof v === 'object'\<close>.\<close>

fun typeof_object :: "jsval \<Rightarrow> bool" where
  "typeof_object JNull = True"
| "typeof_object (JDate t) = True"
| "typeof_object (JObjectId h) = True"
| "typeof_object (JArr xs) = True"
| "typeof_object (JObj m) = True"
| "typeof_object JUndefined = False"
| "typeof_object (JBool b) = False"
| "typeof_object (JNum n) = False"
| "typeof_object (JStr s) = False"

text \<open>
  Reading a property \<open>v.k\<close> of a value that is neither undefined nor null. The source
  reads only names that no built-in prototype defines (\<open>processedData\<close>, \<open>items\<close>,
  \<open>userId\<close>, ...), so on a primitive, an array, a Date or an ObjectId the read gives
  undefined. Reading a property of undefined or null raises a TypeError; the callers
  below test \<open>nullish\<close> where the source can reach such a read.
\<close>

fun get :: "jsval \<Rightarrow> string \<Rightarrow> jsval" where
  "get (JObj m) k = (case m k of None \<Rightarrow> JUndefined | Some v \<Rightarrow> v)"
| "get JUndefined k = JUndefined"
| "get JNull k = JUndefined"
| "get (JBool b) k = JUndefined"
| "get (JNum n) k = JUndefined"
| "get (JStr s) k = JUndefined"
| "get (JDate t) k = JUndefined"
| "get (JObjectId h) k = JUndefined"
| "get (JArr xs) k = JUndefined"

text \<open>Decimal rendering of an array index, for the keys an array or a string spreads to.\<close>

fun show_nat :: "nat \<Rightarrow> string" where
  "show_nat n =
     (if n < 10 then [''0123456789'' ! n]
      else show_nat (n div 10) @ [''0123456789'' ! (n mod 10)])"

declare show_nat.simps [simp del]

text \<open>
  The own enumerable properties that \<open>{...v}\<close> copies: those of an object, the indexed
  elements of an array, the indexed characters of a string, and none for any other
  value (undefined and null included: spreading them is not an error).
\<close>

fun spread_of :: "jsval \<Rightarrow> obj" where
  "spread_of (JObj m) = m"
| "spread_of (JArr xs) = map_of (zip (map show_nat [0..<length xs]) xs)"
| "spread_of (JStr s) = map_of (zip (map show_nat [0..<length s]) (map (\<lambda>c. JStr [c]) s))"
| "spread_of JUndefined = Map.empty"
| "spread_of JNull = Map.empty"
| "spread_of (JBool b) = Map.empty"
| "spread_of (JNum n) = Map.empty"
| "spread_of (JDate t) = Map.empty"
| "spread_of (JObjectId h) = Map.empty"

text \<open>
  Errors are values. \<open>TypeError\<close> is the engine's own error (its message is the
  engine's wording); \<open>Error m\<close> is \<open>new Error(m)\<close> or an error of a library.
\<close>

datatype error = TypeError | Error string

fun message :: "error \<Rightarrow> string" where
  "message TypeError = ''TypeError''"
| "message (Error m) = m"

text \<open>A step that may raise, followed by the rest of the block.\<close>

definition then_do :: "error + 'a \<Rightarrow> ('a \<Rightarrow> error + 'b) \<Rightarrow> error + 'b" where
  "then_do r f = (case r of Inl e \<Rightarrow> Inl e | Inr x \<Rightarrow> f x)"

text \<open>A list of steps, of which the first that raises ends the list.\<close>

fun all_of :: "(error + 'a) list \<Rightarrow> error + 'a list" where
  "all_of [] = Inr []"
| "all_of (r # rs) = then_do r (\<lambda>x. then_do (all_of rs) (\<lambda>xs. Inr (x # xs)))"

text \<open>
  The assignment \<open>v.k = x\<close>, returning the updated \<open>v\<close>. The functions are ES modules
  (they use \<open>import\<close> and \<open>export\<close>), hence strict code: assigning a property of a
  primitive, of undefined or of null raises a TypeError. A named property set on an
  array, a Date or an ObjectId is accepted and is neither stored nor serialised, so the
  value is returned as it was.
\<close>

fun assign :: "jsval \<Rightarrow> string \<Rightarrow> jsval \<Rightarrow> error + jsval" where
  "assign (JObj m) k x = Inr (JObj (m(k \<mapsto> x)))"
| "assign (JArr xs) k x = Inr (JArr xs)"
| "assign (JDate t) k x = Inr (JDate t)"
| "assign (JObjectId h) k x = Inr (JObjectId h)"
| "assign JUndefined k x = Inl TypeError"
| "assign JNull k x = Inl TypeError"
| "assign (JBool b) k x = Inl TypeError"
| "assign (JNum n) k x = Inl TypeError"
| "assign (JStr s) k x = Inl TypeError"

text \<open>The elements \<open>[...v]\<close> iterates over; a value that is not iterable raises.\<close>

fun iterate :: "jsval \<Rightarrow> error + jsval list" where
  "iterate (JArr xs) = Inr xs"
| "iterate (JStr s) = Inr (map (\<lambda>c. JStr [c]) s)"
| "iterate JUndefined = Inl TypeError"
| "iterate JNull = Inl TypeError"
| "iterate (JBool b) = Inl TypeError"
| "iterate (JNum n) = Inl TypeError"
| "iterate (JDate t) = Inl TypeError"
| "iterate (JObjectId h) = Inl TypeError"
| "iterate (JObj m) = Inl TypeError"

subsection \<open>JSON\<close>

text \<open>
  \<open>JSON.parse(JSON.stringify(v))\<close>: a Date becomes its ISO string (\<open>isoString\<close> is
  \<open>Date.prototype.toISOString\<close>, a parameter), an ObjectId its hexadecimal string, a
  number that is not finite becomes null, a property holding undefined is dropped and
  an undefined array element becomes null.
\<close>

fun undefined_to_null :: "jsval \<Rightarrow> jsval" where
  "undefined_to_null JUndefined = JNull"
| "undefined_to_null v = v"

fun drop_undefined :: "jsval option \<Rightarrow> jsval option" where
  "drop_undefined (Some JUndefined) = None"
| "drop_undefined r = r"

primrec to_json :: "(nat \<Rightarrow> string) \<Rightarrow> jsval \<Rightarrow> jsval" where
  "to_json isoString JUndefined = JUndefined"
| "to_json isoString JNull = JNull"
| "to_json isoString (JBool b) = JBool b"
| "to_json isoString (JNum n) =
     (case n of Finite q \<Rightarrow> JNum n | PosInfinity \<Rightarrow> JNull | NegInfinity \<Rightarrow> JNull
      | NaN \<Rightarrow> JNull)"
| "to_json isoString (JStr s) = JStr s"
| "to_json isoString (JDate t) = JStr (isoString t)"
| "to_json isoString (JObjectId h) = JStr h"
| "to_json isoString (JArr xs) = JArr (map undefined_to_null (map (to_json isoString) xs))"
| "to_json isoString (JObj m) =
     JObj (\<lambda>k. drop_undefined (map_option (to_json isoString) (m k)))"

text \<open>
  The values that JSON carries unchanged, those that \<open>JSON.parse(JSON.stringify(v))\<close>
  gives back as they were: no undefined, no Date, no ObjectId and no number that is not
  finite. (A body parsed from JSON text holds such values only, except that a literal
  which overflows, such as \<open>1e999\<close>, is parsed to an infinity.)
\<close>

primrec is_json :: "jsval \<Rightarrow> bool" where
  "is_json JUndefined = False"
| "is_json JNull = True"
| "is_json (JBool b) = True"
| "is_json (JNum n) =
     (case n of Finite q \<Rightarrow> True | PosInfinity \<Rightarrow> False | NegInfinity \<Rightarrow> False
      | NaN \<Rightarrow> False)"
| "is_json (JStr s) = True"
| "is_json (JDate t) = False"
| "is_json (JObjectId h) = False"
| "is_json (JArr xs) = list_all (\<lambda>b. b) (map is_json xs)"
| "is_json (JObj m) = (\<forall>k. case map_option is_json (m k) of None \<Rightarrow> True | Some b \<Rightarrow> b)"

section \<open>Strings\<close>

text \<open>
  \<open>s.split(sep)\<close> for a separator that is not empty (the source splits on
  \<open>'Bearer '\<close> and on \<open>'/'\<close>): \<open>split_from sep acc s\<close> cuts \<open>s\<close> at every occurrence
  of \<open>sep\<close>, \<open>acc\<close> being the piece read so far.
\<close>

fun split_from :: "string \<Rightarrow> string \<Rightarrow> string \<Rightarrow> string list" where
  "split_from sep acc [] = [acc]"
| "split_from sep acc (c # cs) =
     (if prefix sep (c # cs) then acc # split_from sep [] (drop (length sep - 1) cs)
      else split_from sep (acc @ [c]) cs)"

definition js_split :: "string \<Rightarrow> string \<Rightarrow> string list" where
  "js_split s sep = split_from sep [] s"

text \<open>
  \<open>v.toString()\<close>, which the adapter applies to the identifier of an inserted document.
  The call raises a TypeError on undefined and on null, and on an object with a property
  \<open>toString\<close> of its own (no value of a request is a function). A finite number is
  written in plain decimal notation (the exponent notation that the engine uses for very
  large and very small numbers is left out, and at most 17 digits follow the point); any
  other object that is not an array is \<open>[object Object]\<close>; the elements of an array are
  joined by commas, undefined and null as the empty string. The rendering of a Date is
  the engine's (no value of a request holds a Date).
\<close>

fun frac_digits :: "nat \<Rightarrow> rat \<Rightarrow> string" where
  "frac_digits 0 r = []"
| "frac_digits (Suc n) r =
     (if r = 0 then []
      else (''0123456789'' ! nat \<lfloor>r * 10\<rfloor>) # frac_digits n (r * 10 - of_int \<lfloor>r * 10\<rfloor>))"

definition number_toString :: "number \<Rightarrow> string" where
  "number_toString n =
     (case n of
        Finite q \<Rightarrow>
          (if q < 0 then ''-'' else []) @ show_nat (nat \<lfloor>\<bar>q\<bar>\<rfloor>)
            @ (if \<bar>q\<bar> = of_int \<lfloor>\<bar>q\<bar>\<rfloor> then []
               else ''.'' @ frac_digits 17 (\<bar>q\<bar> - of_int \<lfloor>\<bar>q\<bar>\<rfloor>))
      | PosInfinity \<Rightarrow> ''Infinity''
      | NegInfinity \<Rightarrow> ''-Infinity''
      | NaN \<Rightarrow> ''NaN'')"

fun join_comma :: "string list \<Rightarrow> string" where
  "join_comma [] = []"
| "join_comma [s] = s"
| "join_comma (s # t # ts) = s @ '','' @ join_comma (t # ts)"

primrec js_toString :: "jsval \<Rightarrow> error + string" where
  "js_toString JUndefined = Inl TypeError"
| "js_toString JNull = Inl TypeError"
| "js_toString (JBool b) = Inr (if b then ''true'' else ''false'')"
| "js_toString (JNum n) = Inr (number_toString n)"
| "js_toString (JStr s) = Inr s"
| "js_toString (JDate t) = Inr ''Date''"
| "js_toString (JObjectId h) = Inr h"
| "js_toString (JArr xs) =
     then_do (all_of (map (\<lambda>(x, r). if nullish x then Inr [] else r)
                          (zip xs (map js_toString xs))))
       (\<lambda>pieces. Inr (join_comma pieces))"
| "js_toString (JObj m) =
     (case m ''toString'' of None \<Rightarrow> Inr ''[object Object]'' | Some f \<Rightarrow> Inl TypeError)"

definition hex_digit :: "char \<Rightarrow> bool" where
  "hex_digit c = (c \<in> set ''0123456789abcdefABCDEF'')"

definition lower_hex :: "char \<Rightarrow> char" where
  "lower_hex c =
     (if c = CHR ''A'' then CHR ''a'' else if c = CHR ''B'' then CHR ''b''
      else if c = CHR ''C'' then CHR ''c'' else if c = CHR ''D'' then CHR ''d''
      else if c = CHR ''E'' then CHR ''e'' else if c = CHR ''F'' then CHR ''f'' else c)"

section \<open>The outside world\<close>

text \<open>
  Three capabilities are not code of the repository: the identity provider, the
  extraction service and the MongoDB driver with its server. The first two are
  parameters of the handlers. The driver is modelled by what the adapter uses of it:
  \<^item> \<open>new ObjectId(s)\<close> accepts the 24-digit hexadecimal rendering of an identifier
    (in either case) and raises on anything else; \<open>toString\<close> renders in lower case.
    An \<open>ObjectId\<close> is represented by its lower-case rendering.
  \<^item> The collection holds each document under its \<open>_id\<close>. \<open>receipts\<close> is the part of
    the collection whose \<open>_id\<close> is an ObjectId, a map from identifiers to documents;
    \<open>foreign\<close> is the part whose \<open>_id\<close> is any other value, which only a payload that
    brings an \<open>_id\<close> of its own puts there. The adapter reads and updates by ObjectId
    only, so no read and no update reaches a document of \<open>foreign\<close>.
  \<^item> Values are kept as the program passed them (on writing, the driver turns an
    undefined field into null; the model keeps undefined).
  \<^item> The driver and the server refuse to write some documents for reasons that the
    model does not detail, such as the size of the document, the depth of its nesting, a
    field name that holds the NUL character and, with some versions of the server, a
    field name inside an embedded document that holds a dot or starts with \<open>$\<close>.
    \<open>refuses\<close> says which documents these are; it is the environment's, like
    \<open>db_available\<close>.
  \<^item> Connecting succeeds or fails as the environment decides (\<open>db_available\<close>); the
    cached connection of \<open>connectToDatabase\<close> changes no result and is not modelled,
    and of the error's message only the part the source writes is kept.
  Every call that reaches the store or the extraction service is recorded in \<open>trace\<close>,
  so that "no store operation was performed" can be stated.
\<close>

definition ObjectId :: "string \<Rightarrow> string option" where
  "ObjectId s =
     (if length s = 24 \<and> list_all hex_digit s then Some (map lower_hex s) else None)"

datatype call = Connect | InsertOne jsval | FindOne string | UpdateOne string | Extract

record world =
  db_available :: bool
  receipts :: "string \<Rightarrow> obj option"
  foreign :: "jsval \<Rightarrow> obj option"
  refuses :: "obj \<Rightarrow> bool"
  trace :: "call list"

definition connectToDatabase :: "world \<Rightarrow> (error + unit) \<times> world" where
  "connectToDatabase w =
     (if db_available w then Inr () else Inl (Error ''MongoDB connection failed''),
      w\<lparr>trace := trace w @ [Connect]\<rparr>)"

text \<open>
  \<open>insertOne\<close> keeps the \<open>_id\<close> of the document when it has one that is neither
  undefined nor null, and gives the document the ObjectId that the driver generates
  (\<open>newId\<close>, an input of the model) otherwise. The server refuses an array as \<open>_id\<close>
  and an \<open>_id\<close> that is in use, besides the documents of \<open>refuses\<close>. The result is
  \<open>insertedId\<close>, the \<open>_id\<close> under which the document was stored.
\<close>

definition insertOne :: "string \<Rightarrow> obj \<Rightarrow> world \<Rightarrow> (error + jsval) \<times> world" where
  "insertOne newId doc w =
     (let insertedId = (if nullish (get (JObj doc) ''_id'') then JObjectId newId
                        else get (JObj doc) ''_id'')
      in if refuses w doc then
           (Inl (Error ''The document cannot be written''),
            w\<lparr>trace := trace w @ [InsertOne insertedId]\<rparr>)
         else case insertedId of
           JArr xs \<Rightarrow>
             (Inl (Error ''The _id value cannot be of type array''),
              w\<lparr>trace := trace w @ [InsertOne insertedId]\<rparr>)
         | JObjectId h \<Rightarrow>
             (case receipts w h of
                Some d \<Rightarrow> (Inl (Error ''E11000 duplicate key error''),
                           w\<lparr>trace := trace w @ [InsertOne insertedId]\<rparr>)
              | None \<Rightarrow> (Inr insertedId,
                         w\<lparr>receipts := (receipts w)(h \<mapsto> doc(''_id'' \<mapsto> insertedId)),
                           trace := trace w @ [InsertOne insertedId]\<rparr>))
         | _ \<Rightarrow>
             (case foreign w insertedId of
                Some d \<Rightarrow> (Inl (Error ''E11000 duplicate key error''),
                           w\<lparr>trace := trace w @ [InsertOne insertedId]\<rparr>)
              | None \<Rightarrow> (Inr insertedId,
                         w\<lparr>foreign := (foreign w)(insertedId \<mapsto> doc),
                           trace := trace w @ [InsertOne insertedId]\<rparr>)))"

definition findOne :: "string \<Rightarrow> world \<Rightarrow> obj option \<times> world" where
  "findOne objectId w = (receipts w objectId, w\<lparr>trace := trace w @ [FindOne objectId]\<rparr>)"

subsection \<open>The update operator \<open>$set\<close>\<close>

text \<open>
  The server reads every key of a \<open>$set\<close> document as a path: the key is cut at its
  dots, and the pieces name a field, a field of the embedded document held by that
  field, and so on. \<open>set_at p v cur\<close> is the value that \<open>cur\<close> becomes when \<open>v\<close> is
  written at the path \<open>p\<close> inside it (\<open>cur\<close> is undefined where the document has no
  such field):
  \<^item> in an embedded document the named field is written, the other fields are kept;
  \<^item> a field that is missing is created, with the embedded documents that lead to it;
  \<^item> in an array a decimal index names the element, the array being filled with nulls
    up to it, and \<open>$[]\<close> names every element; any other name is refused;
  \<^item> no field can be created inside a value of another kind (a string, a number, a
    Boolean, null, a Date, an ObjectId): the update is refused.
\<close>

definition path_of :: "string \<Rightarrow> string list" where
  "path_of k = js_split k ''.''"

definition array_index :: "string \<Rightarrow> nat option" where
  "array_index c =
     (if c \<noteq> [] \<and> list_all (\<lambda>x. x \<in> set ''0123456789'') c \<and> (c = ''0'' \<or> hd c \<noteq> CHR ''0'')
      then Some (foldl (\<lambda>n x. 10 * n + (of_char x - 48)) 0 c)
      else None)"

primrec set_at :: "string list \<Rightarrow> jsval \<Rightarrow> jsval \<Rightarrow> error + jsval" where
  "set_at [] v cur = Inr v"
| "set_at (c # cs) v cur =
     (if c = ''$[]'' then
        (case cur of
           JArr xs \<Rightarrow> then_do (all_of (map (set_at cs v) xs)) (\<lambda>ys. Inr (JArr ys))
         | _ \<Rightarrow> Inl (Error ''Cannot apply array updates to non-array element''))
      else
        (case cur of
           JObj m \<Rightarrow> then_do (set_at cs v (get cur c)) (\<lambda>x. Inr (JObj (m(c \<mapsto> x))))
         | JUndefined \<Rightarrow> then_do (set_at cs v JUndefined) (\<lambda>x. Inr (JObj [c \<mapsto> x]))
         | JArr xs \<Rightarrow>
             (case array_index c of
                None \<Rightarrow> Inl (Error ''Cannot create field in element'')
              | Some i \<Rightarrow>
                  then_do (set_at cs v (if i < length xs then xs ! i else JUndefined))
                    (\<lambda>x. Inr (JArr ((xs @ replicate (Suc i - length xs) JNull)[i := x]))))
         | _ \<Rightarrow> Inl (Error ''Cannot create field in element'')))"

text \<open>
  The server refuses a \<open>$set\<close> document, before it looks for the document to update,
  when a path has an empty piece (the empty key, a leading, trailing or doubled dot),
  when a piece starts with \<open>$\<close> and is not \<open>$[]\<close> (the positional operators, which
  need a query on an array or array filters, and which the adapter never supplies;
  field names that start with \<open>$\<close> are taken as refused too), and when two paths
  conflict, one leading to or through the field that the other one names. An object has
  finitely many keys.
\<close>

definition accepted_path :: "string list \<Rightarrow> bool" where
  "accepted_path p = ([] \<notin> set p \<and> (\<forall>c\<in>set p. prefix ''$'' c \<longrightarrow> c = ''$[]''))"

definition accepted_set :: "obj \<Rightarrow> bool" where
  "accepted_set set_fields =
     (finite (dom set_fields)
      \<and> (\<forall>k\<in>dom set_fields. accepted_path (path_of k))
      \<and> (\<forall>k\<in>dom set_fields. \<forall>k'\<in>dom set_fields.
            prefix (path_of k) (path_of k') \<longrightarrow> k = k'))"

text \<open>
  \<open>_id\<close> is immutable: on the matched document \<open>d\<close> the server refuses a \<open>$set\<close>
  that writes inside \<open>_id\<close>, or that gives \<open>_id\<close> another value than it has.
\<close>

definition keeps_id :: "obj \<Rightarrow> obj \<Rightarrow> bool" where
  "keeps_id set_fields d =
     (\<forall>k\<in>dom set_fields. hd (path_of k) = ''_id'' \<longrightarrow> k = ''_id'' \<and> set_fields k = d ''_id'')"

text \<open>The paths are written one after the other (they do not conflict, so the order
  does not matter); one refusal refuses the whole update.\<close>

fun write_paths :: "string list \<Rightarrow> obj \<Rightarrow> obj \<Rightarrow> error + obj" where
  "write_paths [] set_fields d = Inr d"
| "write_paths (k # ks) set_fields d =
     (case set_fields k of
        None \<Rightarrow> write_paths ks set_fields d
      | Some v \<Rightarrow> then_do (set_at (path_of k) v (JObj d))
                   (\<lambda>r. write_paths ks set_fields (spread_of r)))"

text \<open>\<open>updateOne\<close> raises when the \<open>$set\<close> document or the document that the update
  would leave is refused, and returns otherwise whether \<open>matchedCount\<close> is positive.\<close>

definition updateOne :: "string \<Rightarrow> obj \<Rightarrow> world \<Rightarrow> (error + bool) \<times> world" where
  "updateOne objectId set_fields w =
     (if \<not> accepted_set set_fields \<or> refuses w set_fields then
        (Inl (Error ''The update document is not valid''),
         w\<lparr>trace := trace w @ [UpdateOne objectId]\<rparr>)
      else (case receipts w objectId of
              None \<Rightarrow> (Inr False, w\<lparr>trace := trace w @ [UpdateOne objectId]\<rparr>)
            | Some d \<Rightarrow>
                if \<not> keeps_id set_fields d then
                  (Inl (Error ''The update would modify the immutable field _id''),
                   w\<lparr>trace := trace w @ [UpdateOne objectId]\<rparr>)
                else (case write_paths (sorted_list_of_set (dom set_fields)) set_fields d of
                        Inl e \<Rightarrow> (Inl e, w\<lparr>trace := trace w @ [UpdateOne objectId]\<rparr>)
                      | Inr d' \<Rightarrow>
                          if refuses w d' then
                            (Inl (Error ''The document cannot be written''),
                             w\<lparr>trace := trace w @ [UpdateOne objectId]\<rparr>)
                          else (Inr True,
                                w\<lparr>receipts := (receipts w)(objectId \<mapsto> d'),
                                  trace := trace w @ [UpdateOne objectId]\<rparr>))))"

text \<open>
  The identity provider: \<open>verifyIdToken\<close> either raises (\<open>Throws\<close>: the token is
  rejected, or the SDK fails in any other way) or returns a decoded token, of which the
  source reads \<open>uid\<close> (\<open>None\<close> when the token has none).
\<close>

datatype verification = Throws | Decoded "string option"

section \<open>Requests and responses\<close>

record request =
  req_method :: string
  req_url :: string
  authorization :: "string option"
  req_body :: jsval

record response =
  status :: nat
  payload :: jsval

text \<open>\<open>response.status(code).json({error: msg, success: false})\<close>.\<close>

definition failure :: "nat \<Rightarrow> string \<Rightarrow> response" where
  "failure code msg =
     \<lparr>status = code, payload = JObj [''error'' \<mapsto> JStr msg, ''success'' \<mapsto> JBool False]\<rparr>"

text \<open>\<open>request.url.split('/').filter(Boolean).pop()\<close>: the last segment of the path that
  is not empty, undefined (\<open>None\<close>) when there is none.\<close>

definition url_id :: "string \<Rightarrow> string option" where
  "url_id u =
     (case filter (\<lambda>s. s \<noteq> []) (js_split u ''/'') of
        [] \<Rightarrow> None
      | p # ps \<Rightarrow> Some (last (p # ps)))"

section \<open>Identity verifier (functions/lib/auth.js)\<close>

text \<open>
  \<open>authHeader.split('Bearer ')[1]\<close> is the second piece of the split, undefined when
  there is none; the empty string stands for undefined here (both are falsy, and the
  source only tests \<open>!idToken\<close> before it hands a token to the identity provider).
\<close>

definition bearer_token :: "string \<Rightarrow> string" where
  "bearer_token authHeader =
     (case drop 1 (js_split authHeader ''Bearer '') of
        [] \<Rightarrow> []
      | idToken # rest \<Rightarrow> idToken)"

text \<open>The whole body stands in a \<open>try\<close> whose \<open>catch\<close> returns null, so a raising SDK
  is a null result.\<close>

definition verifyAuthToken :: "(string \<Rightarrow> verification) \<Rightarrow> request \<Rightarrow> string option" where
  "verifyAuthToken verifyIdToken request =
     (case authorization request of
        None \<Rightarrow> None
      | Some authHeader \<Rightarrow>
          if authHeader = [] \<or> \<not> prefix ''Bearer '' authHeader then None
          else (let idToken = bearer_token authHeader in
                if idToken = [] then None
                else (case verifyIdToken idToken of
                        Throws \<Rightarrow> None
                      | Decoded None \<Rightarrow> None
                      | Decoded (Some uid) \<Rightarrow> if uid = [] then None else Some uid)))"

section \<open>Document store adapter (functions/lib/mongodb.js)\<close>

text \<open>
  \<open>now\<close> is the reading of the clock (\<open>new Date()\<close>) during the call. The adapter's
  \<open>id\<close> (written \<open>receiptId\<close> here) is a string, as its callers pass it, so the test
  \<open>!id\<close> is the test for the empty string. \<open>createReceiptDocument\<close> raises, after the
  insert, when \<open>insertedId\<close> is falsy, and returns \<open>insertedId.toString()\<close> otherwise;
  its \<open>catch\<close> rethrows every error.
\<close>

definition createReceiptDocument ::
  "nat \<Rightarrow> string \<Rightarrow> world \<Rightarrow> jsval \<Rightarrow> (error + string) \<times> world" where
  "createReceiptDocument now newId w receiptData =
     (case connectToDatabase w of
        (Inl e, w1) \<Rightarrow> (Inl e, w1)
      | (Inr u, w1) \<Rightarrow>
          (let documentToInsert =
                 (spread_of receiptData)(''createdAt'' \<mapsto> JDate now, ''updatedAt'' \<mapsto> JDate now)
           in case insertOne newId documentToInsert w1 of
                (Inl e, w2) \<Rightarrow> (Inl e, w2)
              | (Inr insertedId, w2) \<Rightarrow>
                  if \<not> truthy insertedId then
                    (Inl (Error ''Failed to get insertedId from MongoDB''), w2)
                  else (js_toString insertedId, w2)))"

definition getReceiptById :: "world \<Rightarrow> string \<Rightarrow> (error + jsval option) \<times> world" where
  "getReceiptById w receiptId =
     (if receiptId = [] then (Inl (Error ''Invalid receipt ID''), w)
      else (case connectToDatabase w of
              (Inl e, w1) \<Rightarrow> (Inl e, w1)
            | (Inr u, w1) \<Rightarrow>
                (case ObjectId receiptId of
                   None \<Rightarrow> (Inr None, w1)
                 | Some objectId \<Rightarrow>
                     (case findOne objectId w1 of
                        (None, w2) \<Rightarrow> (Inr None, w2)
                      | (Some document, w2) \<Rightarrow> (Inr (Some (JObj document)), w2)))))"

text \<open>
  The update adapter catches every error, a refusal of the server included, and
  returns false. The second \<open>findOne\<close> projects the existing document on
  \<open>createdAt\<close>; \<open>existingDoc?.createdAt\<close> is undefined when no document was found.
\<close>

definition updateReceiptById :: "nat \<Rightarrow> world \<Rightarrow> string \<Rightarrow> jsval \<Rightarrow> bool \<times> world" where
  "updateReceiptById now w receiptId updateData =
     (if receiptId = [] then (False, w)
      else if \<not> truthy updateData \<or> \<not> typeof_object updateData then (False, w)
      else (case connectToDatabase w of
              (Inl e, w1) \<Rightarrow> (False, w1)
            | (Inr u, w1) \<Rightarrow>
                (case ObjectId receiptId of
                   None \<Rightarrow> (False, w1)
                 | Some objectId \<Rightarrow>
                     (let set_fields = (spread_of updateData)(''updatedAt'' \<mapsto> JDate now) in
                      case findOne objectId w1 of
                        (existingDoc, w2) \<Rightarrow>
                          (let createdAt =
                                 (case existingDoc of
                                    None \<Rightarrow> JUndefined
                                  | Some d \<Rightarrow> get (JObj d) ''createdAt'')
                           in case updateOne objectId
                                     (if truthy createdAt
                                      then set_fields(''createdAt'' \<mapsto> createdAt)
                                      else set_fields) w2 of
                                (Inl e, w3) \<Rightarrow> (False, w3)
                              | (Inr matched, w3) \<Rightarrow> (matched, w3))))))"

section \<open>Receipt lifecycle handlers\<close>

text \<open>\<open>v.k.k2 = x\<close>: the object held by \<open>v.k\<close> is updated in place.\<close>

definition assign_in :: "jsval \<Rightarrow> string \<Rightarrow> string \<Rightarrow> jsval \<Rightarrow> error + jsval" where
  "assign_in v k k2 x = then_do (assign (get v k) k2 x) (\<lambda>inner. assign v k inner)"

subsection \<open>save (functions/src/saveReceipt.js)\<close>

definition validateReceiptData :: "jsval \<Rightarrow> bool" where
  "validateReceiptData data =
     (if \<not> truthy (get data ''originalData'') \<and> \<not> truthy (get data ''processedData'')
         \<and> \<not> truthy (get data ''shareData'') then False
      else if truthy (get data ''processedData'')
         \<and> (\<not> truthy (get (get data ''processedData'') ''items'')
            \<or> \<not> isArray (get (get data ''processedData'') ''items'')) then False
      else if truthy (get data ''shareData'')
         \<and> (\<not> truthy (get (get data ''shareData'') ''items'')
            \<or> \<not> isArray (get (get data ''shareData'') ''items'')) then False
      else True)"

text \<open>Lines 104 to 114 of the handler: the processing metadata of a saved receipt.\<close>

definition save_processingMetadata :: "nat \<Rightarrow> string \<Rightarrow> jsval \<Rightarrow> error + jsval" where
  "save_processingMetadata now userId receiptData =
     (if \<not> truthy (get receiptData ''processingMetadata'') then
        assign receiptData ''processingMetadata''
          (JObj [''processedAt'' \<mapsto> JDate now, ''source'' \<mapsto> JStr ''mobile_app'',
                 ''userId'' \<mapsto> JStr userId])
      else assign_in receiptData ''processingMetadata'' ''userId'' (JStr userId))"

definition saveReceipt ::
  "(string \<Rightarrow> verification) \<Rightarrow> nat \<Rightarrow> string \<Rightarrow> world \<Rightarrow> request \<Rightarrow> response \<times> world" where
  "saveReceipt verifyIdToken now newId w request =
     (if req_method request \<noteq> ''POST'' then (failure 405 ''Method not allowed'', w)
      else (case verifyAuthToken verifyIdToken request of
              None \<Rightarrow> (failure 401 ''Unauthorized: Authentication required'', w)
            | Some userId \<Rightarrow>
                (let receiptData = req_body request in
                 if \<not> truthy receiptData then (failure 400 ''Receipt data is required'', w)
                 else if \<not> validateReceiptData receiptData then
                   (failure 400 ''Invalid receipt data structure. Missing required fields'', w)
                 else (case save_processingMetadata now userId receiptData of
                         Inl e \<Rightarrow> (failure 500 (''Failed to save receipt data: '' @ message e), w)
                       | Inr receiptData' \<Rightarrow>
                           (case createReceiptDocument now newId w receiptData' of
                              (Inl e, w1) \<Rightarrow>
                                (failure 500 (''Database operation failed: '' @ message e), w1)
                            | (Inr documentId, w1) \<Rightarrow>
                                if documentId = [] then
                                  (failure 500 ''Failed to create receipt document'', w1)
                                else (\<lparr>status = 200,
                                       payload = JObj [''id'' \<mapsto> JStr documentId,
                                                       ''success'' \<mapsto> JBool True]\<rparr>, w1))))))"

subsection \<open>load (functions/src/loadReceiptById.js)\<close>

text \<open>Lines 82 to 98 of the handler: the identifier echoed into the response.\<close>

definition add_documentId :: "string \<Rightarrow> jsval \<Rightarrow> error + jsval" where
  "add_documentId receiptId responseData =
     then_do (if truthy (get responseData ''shareData'')
              then assign_in responseData ''shareData'' ''documentId'' (JStr receiptId)
              else Inr responseData)
       (\<lambda>r1. then_do (if truthy (get r1 ''processedData'')
                       then assign_in r1 ''processedData'' ''documentId'' (JStr receiptId)
                       else Inr r1)
          (\<lambda>r2. then_do (assign r2 ''documentId'' (JStr receiptId))
             (\<lambda>r3. assign r3 ''success'' (JBool True))))"

definition loadReceiptById ::
  "(string \<Rightarrow> verification) \<Rightarrow> (nat \<Rightarrow> string) \<Rightarrow> world \<Rightarrow> request \<Rightarrow> response \<times> world" where
  "loadReceiptById verifyIdToken isoString w request =
     (if req_method request \<noteq> ''GET'' then (failure 405 ''Method not allowed'', w)
      else (case verifyAuthToken verifyIdToken request of
              None \<Rightarrow> (failure 401 ''Unauthorized: Authentication required'', w)
            | Some userId \<Rightarrow>
                (case url_id (req_url request) of
                   None \<Rightarrow> (failure 400 ''Receipt ID is required'', w)
                 | Some receiptId \<Rightarrow>
                     (case getReceiptById w receiptId of
                        (Inl e, w1) \<Rightarrow> (failure 500 (''Failed to load receipt: '' @ message e), w1)
                      | (Inr None, w1) \<Rightarrow> (failure 404 ''Receipt not found'', w1)
                      | (Inr (Some receiptData), w1) \<Rightarrow>
                          (case add_documentId receiptId (to_json isoString receiptData) of
                             Inl e \<Rightarrow>
                               (failure 500 (''Failed to load receipt: '' @ message e), w1)
                           | Inr responseData \<Rightarrow>
                               (\<lparr>status = 200, payload = responseData\<rparr>, w1))))))"

subsection \<open>update (functions/src/updateReceiptById.js)\<close>

text \<open>
  Lines 100 to 115 of the handler. In the first branch \<open>updateData.processingMetadata\<close>
  is falsy and the object literal reads its \<open>userId\<close> and \<open>updatedBy\<close>: a TypeError when
  it is undefined or null, undefined when it is false, 0 or the empty string.
\<close>

definition update_processingMetadata ::
  "nat \<Rightarrow> string \<Rightarrow> jsval \<Rightarrow> jsval \<Rightarrow> error + jsval" where
  "update_processingMetadata now userId existingReceipt updateData =
     (let supplied = get updateData ''processingMetadata'' in
      if \<not> truthy supplied then
        (if nullish supplied then Inl TypeError
         else then_do
                (if truthy (get supplied ''updatedBy'')
                 then then_do (iterate (get supplied ''updatedBy''))
                        (\<lambda>xs. Inr (JArr (xs @ [JStr userId])))
                 else Inr (JArr [JStr userId]))
                (\<lambda>updatedBy.
                   assign updateData ''processingMetadata''
                     (JObj ((spread_of
                               (if truthy (get existingReceipt ''processingMetadata'')
                                then get existingReceipt ''processingMetadata''
                                else JObj Map.empty))
                            (''updatedAt'' \<mapsto> JDate now,
                             ''userId'' \<mapsto> get supplied ''userId'',
                             ''updatedBy'' \<mapsto> updatedBy)))))
      else assign updateData ''processingMetadata''
             (JObj ((spread_of supplied)
                    (''updatedAt'' \<mapsto> JDate now,
                     ''userId'' \<mapsto> JStr userId,
                     ''updatedBy'' \<mapsto> JArr [JStr userId]))))"

text \<open>
  The handler (named \<open>updateReceiptById\<close> in its file, where the adapter's function is
  imported as \<open>updateReceipt\<close>). The adapter never raises, so the handler's
  \<open>catch (dbError)\<close> around its call has no branch here.
\<close>

definition updateReceiptById_handler ::
  "(string \<Rightarrow> verification) \<Rightarrow> nat \<Rightarrow> world \<Rightarrow> request \<Rightarrow> response \<times> world" where
  "updateReceiptById_handler verifyIdToken now w request =
     (if req_method request \<noteq> ''PUT'' then (failure 405 ''Method not allowed'', w)
      else (case verifyAuthToken verifyIdToken request of
              None \<Rightarrow> (failure 401 ''Unauthorized: Authentication required'', w)
            | Some userId \<Rightarrow>
                (case url_id (req_url request) of
                   None \<Rightarrow> (failure 400 ''Receipt ID is required'', w)
                 | Some receiptId \<Rightarrow>
                     (let updateData = req_body request in
                      if \<not> truthy updateData then (failure 400 ''Update data is required'', w)
                      else (case getReceiptById w receiptId of
                              (Inl e, w1) \<Rightarrow>
                                (failure 500 (''Failed to update receipt: '' @ message e), w1)
                            | (Inr None, w1) \<Rightarrow> (failure 404 ''Receipt not found'', w1)
                            | (Inr (Some existingReceipt), w1) \<Rightarrow>
                                (case update_processingMetadata now userId existingReceipt
                                        updateData of
                                   Inl e \<Rightarrow>
                                     (failure 500 (''Failed to update receipt: '' @ message e), w1)
                                 | Inr updateData' \<Rightarrow>
                                     (case updateReceiptById now w1 receiptId updateData' of
                                        (success, w2) \<Rightarrow>
                                          if \<not> success then
                                            (failure 500 ''Failed to update receipt'', w2)
                                          else (\<lparr>status = 200,
                                                 payload = JObj [''id'' \<mapsto> JStr receiptId,
                                                                 ''success'' \<mapsto> JBool True]\<rparr>,
                                                w2))))))))"

subsection \<open>process (functions/src/processReceipt.js)\<close>

text \<open>
  \<open>processReceiptWithGemini\<close>, the call of the extraction service with the parsing of
  its answer, is a parameter: it returns the extracted value or raises. Destructuring
  \<open>request.body\<close> raises when the body is undefined or null.
\<close>

definition processReceipt ::
  "(string \<Rightarrow> verification) \<Rightarrow> (jsval \<Rightarrow> jsval \<Rightarrow> error + jsval) \<Rightarrow> world \<Rightarrow> request
     \<Rightarrow> response \<times> world" where
  "processReceipt verifyIdToken processReceiptWithGemini w request =
     (if req_method request \<noteq> ''POST'' then (failure 405 ''Method not allowed'', w)
      else (case verifyAuthToken verifyIdToken request of
              None \<Rightarrow> (failure 401 ''Unauthorized: Authentication required'', w)
            | Some userId \<Rightarrow>
                if nullish (req_body request) then (failure 500 (message TypeError), w)
                else (let base64Image = get (req_body request) ''image'';
                          mimeType = (case get (req_body request) ''type'' of
                                        JUndefined \<Rightarrow> JStr ''image/jpeg''
                                      | t \<Rightarrow> t)
                      in if \<not> truthy base64Image then (failure 400 ''No image provided'', w)
                         else (let w1 = w\<lparr>trace := trace w @ [Extract]\<rparr> in
                               case then_do (processReceiptWithGemini base64Image mimeType)
                                      (\<lambda>result. then_do (assign result ''userId'' (JStr userId))
                                         (\<lambda>r1. assign r1 ''success'' (JBool True))) of
                                 Inl e \<Rightarrow>
                                   (failure 500
                                      (if message e = []
                                       then ''Unknown error during receipt processing''
                                       else message e), w1)
                               | Inr result \<Rightarrow> (\<lparr>status = 200, payload = result\<rparr>, w1)))))"

section \<open>Collections written by the adapter\<close>

text \<open>
  The document that \<open>createReceiptDocument\<close> hands to \<open>insertOne\<close> (lines 99 to 103
  of mongodb.js): the receipt data with the two timestamps.
\<close>

definition document_of :: "nat \<Rightarrow> jsval \<Rightarrow> obj" where
  "document_of now receiptData =
     (spread_of receiptData)(''createdAt'' \<mapsto> JDate now, ''updatedAt'' \<mapsto> JDate now)"

text \<open>
  The document that the update adapter hands to \<open>$set\<close> for an existing document \<open>d\<close>
  (lines 198 to 211 of mongodb.js): the patch, \<open>updatedAt\<close>, and the existing
  \<open>createdAt\<close> when it is truthy.
\<close>

definition set_fields_of :: "nat \<Rightarrow> obj \<Rightarrow> jsval \<Rightarrow> obj" where
  "set_fields_of now d updateData =
     (if truthy (get (JObj d) ''createdAt'')
      then (spread_of updateData)(''updatedAt'' \<mapsto> JDate now,
             ''createdAt'' \<mapsto> get (JObj d) ''createdAt'')
      else (spread_of updateData)(''updatedAt'' \<mapsto> JDate now))"

text \<open>
  The worlds whose collection the program itself has written: it starts empty, and
  documents enter and change only through \<open>createReceiptDocument\<close> and
  \<open>updateReceiptById\<close>, the two functions of the repository that write (whatever else
  happens, such as reads, failed connections and calls of the extraction service,
  leaves the collection as it is).
\<close>

inductive written :: "world \<Rightarrow> bool" where
  empty: "receipts w = Map.empty \<Longrightarrow> written w"
| created: "written w \<Longrightarrow> written (snd (createReceiptDocument now newId w receiptData))"
| updated: "written w \<Longrightarrow> written (snd (updateReceiptById now w receiptId updateData))"
| same: "written w \<Longrightarrow> receipts w' = receipts w \<Longrightarrow> written w'"

section \<open>The specification's vocabulary\<close>

text \<open>
  The structural condition of the specification on a saved payload, in its words: at
  least one of \<open>originalData\<close>, \<open>processedData\<close>, \<open>shareData\<close> is present, and
  \<open>processedData\<close> and \<open>shareData\<close>, where present, carry an \<open>items\<close> array. A
  field is present when it holds a truthy value.
\<close>

definition present :: "jsval \<Rightarrow> string \<Rightarrow> bool" where
  "present data k = truthy (get data k)"

definition carries_items :: "jsval \<Rightarrow> bool" where
  "carries_items v = isArray (get v ''items'')"

definition well_formed_payload :: "jsval \<Rightarrow> bool" where
  "well_formed_payload data =
     ((present data ''originalData'' \<or> present data ''processedData''
         \<or> present data ''shareData'')
      \<and> (present data ''processedData'' \<longrightarrow> carries_items (get data ''processedData''))
      \<and> (present data ''shareData'' \<longrightarrow> carries_items (get data ''shareData'')))"

text \<open>
  A plain field name: not empty, without a dot, not starting with \<open>$\<close>, and not
  \<open>_id\<close>. An object with plain fields has finitely many keys, all of them plain:
  as a patch, it names top-level fields of the stored document, and none that the
  store reserves.
\<close>

definition plain_key :: "string \<Rightarrow> bool" where
  "plain_key k = (k \<noteq> [] \<and> CHR ''.'' \<notin> set k \<and> \<not> prefix ''$'' k \<and> k \<noteq> ''_id'')"

definition plain_fields :: "obj \<Rightarrow> bool" where
  "plain_fields m = (finite (dom m) \<and> (\<forall>k\<in>dom m. plain_key k))"

text \<open>
  A nested view with the document identifier injected: an object gets the property
  \<open>documentId\<close>; any other value that a successful load can return for the field (a
  falsy value, an array) is what it was. On a truthy primitive the load handler's
  assignment raises and the load fails.
\<close>

fun with_documentId :: "string \<Rightarrow> jsval \<Rightarrow> jsval" where
  "with_documentId receiptId (JObj m) = JObj (m(''documentId'' \<mapsto> JStr receiptId))"
| "with_documentId receiptId JUndefined = JUndefined"
| "with_documentId receiptId JNull = JNull"
| "with_documentId receiptId (JBool b) = JBool b"
| "with_documentId receiptId (JNum n) = JNum n"
| "with_documentId receiptId (JStr s) = JStr s"
| "with_documentId receiptId (JDate t) = JDate t"
| "with_documentId receiptId (JObjectId h) = JObjectId h"
| "with_documentId receiptId (JArr xs) = JArr xs"

section \<open>Example inputs\<close>

text \<open>
  Concrete inputs on which the theorems below are instantiated: an identity provider
  that accepts the token \<open>tok\<close> as the subject \<open>alice\<close> and rejects every other token,
  a store holding one receipt that \<open>bob\<close> saved at time 5, and requests that address it.
\<close>

definition accepts_alice :: "string \<Rightarrow> verification" where
  "accepts_alice t = (if t = ''tok'' then Decoded (Some ''alice'') else Throws)"

definition one_receipt :: world where
  "one_receipt =
     \<lparr>db_available = True,
      receipts =
        [''507f1f77bcf86cd799439011'' \<mapsto>
           [''originalData'' \<mapsto> JObj [''uri'' \<mapsto> JStr ''file.jpg''],
            ''processingMetadata'' \<mapsto> JObj [''userId'' \<mapsto> JStr ''bob''],
            ''createdAt'' \<mapsto> JDate 5,
            ''updatedAt'' \<mapsto> JDate 5,
            ''_id'' \<mapsto> JObjectId ''507f1f77bcf86cd799439011'']],
      foreign = Map.empty,
      refuses = (\<lambda>doc. False),
      trace = []\<rparr>"

definition empty_store :: world where
  "empty_store =
     \<lparr>db_available = True, receipts = Map.empty, foreign = Map.empty,
      refuses = (\<lambda>doc. False), trace = []\<rparr>"

definition request_of :: "string \<Rightarrow> string \<Rightarrow> jsval \<Rightarrow> request" where
  "request_of m u b =
     \<lparr>req_method = m, req_url = u, authorization = Some ''Bearer tok'', req_body = b\<rparr>"

definition anonymous :: "string \<Rightarrow> string \<Rightarrow> jsval \<Rightarrow> request" where
  "anonymous m u b = \<lparr>req_method = m, req_url = u, authorization = None, req_body = b\<rparr>"

definition latte :: jsval where
  "latte = JObj [''processedData'' \<mapsto>
      JObj [''items'' \<mapsto> JArr [JObj [''name'' \<mapsto> JStr ''Latte'', ''quantity'' \<mapsto> JNum (Finite 1),
                                         ''total'' \<mapsto> JNum (Finite (9 / 2))]],
            ''meta_data'' \<mapsto> JObj [''restaurant'' \<mapsto> JStr ''Cafe X'']]]"

definition note_patch :: jsval where
  "note_patch = JObj [''note'' \<mapsto> JStr ''hi'',
                      ''shareData'' \<mapsto> JObj [''items'' \<mapsto> JArr []],
                      ''processingMetadata'' \<mapsto> JObj [''userId'' \<mapsto> JStr ''mallory'']]"

section \<open>Facts about the example inputs and the responses\<close>

lemma url_id_nonempty: "url_id u = Some r \<Longrightarrow> r \<noteq> []"
proof -
  assume a: "url_id u = Some r"
  define ps where "ps = filter (\<lambda>s. s \<noteq> []) (js_split u ''/'')"
  from a have "ps \<noteq> []" and "r = last ps"
    by (auto simp: url_id_def ps_def split: list.splits)
  then have "r \<in> set ps" by simp
  then show ?thesis by (simp add: ps_def)
qed

lemma failure_simps [simp]:
  "status (failure c m) = c"
  "get (payload (failure c m)) ''success'' = JBool False"
  "get (payload (failure c m)) ''error'' = JStr m"
  by (simp_all add: failure_def)

lemma accepts_alice_request [simp]:
  "verifyAuthToken accepts_alice (request_of m u b) = Some ''alice''"
  by (simp add: verifyAuthToken_def accepts_alice_def request_of_def bearer_token_def
      js_split_def)

lemma anonymous_request [simp]: "verifyAuthToken v (anonymous m u b) = None"
  by (simp add: verifyAuthToken_def anonymous_def)

lemma request_of_simps [simp]:
  "req_method (request_of m u b) = m" "req_url (request_of m u b) = u"
  "req_body (request_of m u b) = b"
  by (simp_all add: request_of_def)

lemma anonymous_simps [simp]:
  "req_method (anonymous m u b) = m" "req_url (anonymous m u b) = u"
  "req_body (anonymous m u b) = b"
  by (simp_all add: anonymous_def)

lemma url_id_example [simp]:
  "url_id ''/507f1f77bcf86cd799439011'' = Some ''507f1f77bcf86cd799439011''"
  by (simp add: url_id_def js_split_def)

lemma ObjectId_example:
  "ObjectId ''507f1f77bcf86cd799439011'' = Some ''507f1f77bcf86cd799439011''"
  by (simp add: ObjectId_def hex_digit_def lower_hex_def)

lemma one_receipt_document:
  "receipts one_receipt ''507f1f77bcf86cd799439011''
     = Some [''originalData'' \<mapsto> JObj [''uri'' \<mapsto> JStr ''file.jpg''],
             ''processingMetadata'' \<mapsto> JObj [''userId'' \<mapsto> JStr ''bob''],
             ''createdAt'' \<mapsto> JDate 5,
             ''updatedAt'' \<mapsto> JDate 5,
             ''_id'' \<mapsto> JObjectId ''507f1f77bcf86cd799439011'']"
  by (simp add: one_receipt_def)

lemma db_available_one_receipt [simp]: "db_available one_receipt"
  by (simp add: one_receipt_def)

lemma refuses_one_receipt [simp]: "\<not> refuses one_receipt doc"
  by (simp add: one_receipt_def)

lemma written_one_receipt: "written one_receipt"
proof -
  have "receipts one_receipt =
      receipts (snd (createReceiptDocument 5 ''507f1f77bcf86cd799439011'' empty_store
        (JObj [''originalData'' \<mapsto> JObj [''uri'' \<mapsto> JStr ''file.jpg''],
               ''processingMetadata'' \<mapsto> JObj [''userId'' \<mapsto> JStr ''bob'']])))"
    by (simp add: one_receipt_def empty_store_def createReceiptDocument_def
        connectToDatabase_def insertOne_def Let_def)
  moreover have "written empty_store" by (rule written.empty) (simp add: empty_store_def)
  ultimately show ?thesis by (blast intro: written.created written.same)
qed


section \<open>Properties of the identity verifier\<close>

lemma split_from_no_occurrence:
  "\<forall>i. \<not> prefix sep (drop i t) \<Longrightarrow> split_from sep acc t = [acc @ t]"
proof (induction t arbitrary: acc)
  case Nil
  then show ?case by simp
next
  case (Cons c cs)
  have a: "\<not> prefix sep (c # cs)" using Cons.prems [rule_format, of 0] by simp
  have b: "\<forall>i. \<not> prefix sep (drop i cs)"
  proof
    fix i show "\<not> prefix sep (drop i cs)" using Cons.prems [rule_format, of "Suc i"] by simp
  qed
  show ?case using a Cons.IH [OF b] by simp
qed

text \<open>The token of a header \<open>Bearer t\<close> is \<open>t\<close> (when \<open>t\<close> does not itself contain
  the separator).\<close>

lemma bearer_token_plain:
  assumes "\<forall>i. \<not> prefix ''Bearer '' (drop i t)"
  shows "bearer_token (''Bearer '' @ t) = t"
  using split_from_no_occurrence [OF assms, of "[]"]
  by (simp add: bearer_token_def js_split_def)

text \<open>
  Claim C8. \<open>verifyAuthToken\<close> never raises: it is a total function into the optional
  subject identifier, in which a raising SDK is a value (\<open>Throws\<close>). It returns null
  (\<open>None\<close>) when the Authorization header is absent, when it does not start with
  \<open>Bearer \<close>, when the token is empty, when the identity provider raises, and when
  the decoded token has no \<open>uid\<close>; when the provider accepts the token it returns the
  subject's identifier, and it returns an identifier in no other case.
\<close>

theorem verifyAuthToken_never_throws:
  "(authorization request = None \<longrightarrow> verifyAuthToken v request = None) \<and>
   (\<forall>h. authorization request = Some h \<and> \<not> prefix ''Bearer '' h \<longrightarrow>
        verifyAuthToken v request = None) \<and>
   (\<forall>h. authorization request = Some h \<and> bearer_token h = [] \<longrightarrow>
        verifyAuthToken v request = None) \<and>
   (\<forall>h. authorization request = Some h \<and> v (bearer_token h) = Throws \<longrightarrow>
        verifyAuthToken v request = None) \<and>
   (\<forall>h. authorization request = Some h \<and> v (bearer_token h) = Decoded None \<longrightarrow>
        verifyAuthToken v request = None) \<and>
   (\<forall>h uid. authorization request = Some h \<and> prefix ''Bearer '' h \<and> bearer_token h \<noteq> []
        \<and> v (bearer_token h) = Decoded (Some uid) \<and> uid \<noteq> [] \<longrightarrow>
        verifyAuthToken v request = Some uid) \<and>
   (\<forall>uid. verifyAuthToken v request = Some uid \<longrightarrow>
        uid \<noteq> [] \<and> (\<exists>h. authorization request = Some h \<and> prefix ''Bearer '' h
                       \<and> v (bearer_token h) = Decoded (Some uid)))"
  by (auto simp: verifyAuthToken_def Let_def split: option.splits verification.splits if_splits)

theorem verifyAuthToken_never_throws_witness:
  "verifyAuthToken (\<lambda>t. if t = ''tok'' then Decoded (Some ''alice'') else Throws)
     \<lparr>req_method = ''GET'', req_url = ''/x'', authorization = Some ''Bearer tok'',
      req_body = JUndefined\<rparr> = Some ''alice''
   \<and> verifyAuthToken (\<lambda>t. if t = ''tok'' then Decoded (Some ''alice'') else Throws)
     \<lparr>req_method = ''GET'', req_url = ''/x'', authorization = Some ''Bearer forged'',
      req_body = JUndefined\<rparr> = None
   \<and> verifyAuthToken (\<lambda>t. if t = ''tok'' then Decoded (Some ''alice'') else Throws)
     \<lparr>req_method = ''GET'', req_url = ''/x'', authorization = None,
      req_body = JUndefined\<rparr> = None"
  using verifyAuthToken_never_throws
    [of "\<lparr>req_method = ''GET'', req_url = ''/x'', authorization = Some ''Bearer tok'',
          req_body = JUndefined\<rparr>"
        "\<lambda>t. if t = ''tok'' then Decoded (Some ''alice'') else Throws"]
  by (simp add: verifyAuthToken_def bearer_token_def js_split_def)


section \<open>Properties of the store adapter\<close>

text \<open>
  Claim C7, as amended. For an identifier that is not empty and a store that can be
  reached, \<open>getReceiptById\<close> returns null when the identifier does not parse and when
  no document matches, and the full document otherwise. The empty identifier raises
  \<open>Invalid receipt ID\<close> (the input validation at the head of the function, whose
  error the \<open>catch\<close> rethrows), and a failed connection raises as well. The collection
  is never changed.
\<close>

theorem getReceiptById_outcomes:
  "(receiptId \<noteq> [] \<and> db_available w \<and> ObjectId receiptId = None \<longrightarrow>
      fst (getReceiptById w receiptId) = Inr None) \<and>
   (\<forall>objectId. receiptId \<noteq> [] \<and> db_available w \<and> ObjectId receiptId = Some objectId
      \<and> receipts w objectId = None \<longrightarrow>
      fst (getReceiptById w receiptId) = Inr None) \<and>
   (\<forall>objectId d. receiptId \<noteq> [] \<and> db_available w \<and> ObjectId receiptId = Some objectId
      \<and> receipts w objectId = Some d \<longrightarrow>
      fst (getReceiptById w receiptId) = Inr (Some (JObj d))) \<and>
   (receiptId = [] \<longrightarrow> fst (getReceiptById w receiptId) = Inl (Error ''Invalid receipt ID'')) \<and>
   (receiptId \<noteq> [] \<and> \<not> db_available w \<longrightarrow>
      fst (getReceiptById w receiptId) = Inl (Error ''MongoDB connection failed'')) \<and>
   receipts (snd (getReceiptById w receiptId)) = receipts w"
  by (auto simp: getReceiptById_def connectToDatabase_def findOne_def split: option.splits)

theorem getReceiptById_outcomes_witness:
  "fst (getReceiptById
          \<lparr>db_available = True,
           receipts = [''507f1f77bcf86cd799439011'' \<mapsto> [''createdAt'' \<mapsto> JDate 5]],
           foreign = Map.empty, refuses = (\<lambda>doc. False), trace = []\<rparr> ''507f1f77bcf86cd799439011'')
     = Inr (Some (JObj [''createdAt'' \<mapsto> JDate 5]))
   \<and> fst (getReceiptById
          \<lparr>db_available = True,
           receipts = [''507f1f77bcf86cd799439011'' \<mapsto> [''createdAt'' \<mapsto> JDate 5]],
           foreign = Map.empty, refuses = (\<lambda>doc. False), trace = []\<rparr> ''not-an-id'') = Inr None"
  using getReceiptById_outcomes
    [of "''507f1f77bcf86cd799439011''"
        "\<lparr>db_available = True,
          receipts = [''507f1f77bcf86cd799439011'' \<mapsto> [''createdAt'' \<mapsto> JDate 5]],
          foreign = Map.empty, refuses = (\<lambda>doc. False), trace = []\<rparr>"]
    getReceiptById_outcomes
    [of "''not-an-id''"
        "\<lparr>db_available = True,
          receipts = [''507f1f77bcf86cd799439011'' \<mapsto> [''createdAt'' \<mapsto> JDate 5]],
          foreign = Map.empty, refuses = (\<lambda>doc. False), trace = []\<rparr>"]
  by (simp add: ObjectId_def hex_digit_def lower_hex_def)

text \<open>
  Claim C7 as stated fails at the empty identifier: it does not parse, the store can be
  reached, and the caller gets an exception, not null. It also fails for an identifier
  that does not parse when the store cannot be reached: the connection is opened before
  the identifier is parsed, and its failure is rethrown.
\<close>

theorem getReceiptById_empty_id_raises:
  "ObjectId [] = None \<and>
   fst (getReceiptById
          \<lparr>db_available = True, receipts = Map.empty, foreign = Map.empty,
           refuses = (\<lambda>doc. False), trace = []\<rparr> [])
     = Inl (Error ''Invalid receipt ID'') \<and>
   ObjectId ''not-an-id'' = None \<and>
   fst (getReceiptById
          \<lparr>db_available = False, receipts = Map.empty, foreign = Map.empty,
           refuses = (\<lambda>doc. False), trace = []\<rparr> ''not-an-id'')
     = Inl (Error ''MongoDB connection failed'')"
  by (simp add: ObjectId_def getReceiptById_def connectToDatabase_def)


section \<open>Properties of the handlers\<close>

lemma update_processingMetadata_undefined:
  "get updateData ''processingMetadata'' = JUndefined \<Longrightarrow>
   update_processingMetadata now userId existing updateData = Inl TypeError"
  by (simp add: update_processingMetadata_def)

text \<open>
  Claim C10. An authenticated PUT whose body is present (truthy) and has no
  \<open>processingMetadata\<close> (reading it gives undefined), addressed to a document that
  exists, is answered with status 500 and \<open>success: false\<close>, and the collection is left
  as it was. With the store reachable the failure is the TypeError of the
  missing-metadata branch, which reads \<open>userId\<close> of the absent field.
\<close>

theorem update_without_processingMetadata:
  assumes "req_method request = ''PUT''"
    and "verifyAuthToken v request = Some userId"
    and "url_id (req_url request) = Some receiptId"
    and "truthy (req_body request)"
    and "get (req_body request) ''processingMetadata'' = JUndefined"
    and "ObjectId receiptId = Some objectId"
    and "receipts w objectId = Some d"
  shows "status (fst (updateReceiptById_handler v now w request)) = 500
    \<and> get (payload (fst (updateReceiptById_handler v now w request))) ''success'' = JBool False
    \<and> receipts (snd (updateReceiptById_handler v now w request)) = receipts w
    \<and> (db_available w \<longrightarrow>
         get (payload (fst (updateReceiptById_handler v now w request))) ''error''
           = JStr (''Failed to update receipt: '' @ message TypeError))"
proof -
  have ne: "receiptId \<noteq> []" using assms(3) by (rule url_id_nonempty)
  show ?thesis
  proof (cases "db_available w")
    case True
    then have g: "getReceiptById w receiptId
        = (Inr (Some (JObj d)), w\<lparr>trace := trace w @ [Connect] @ [FindOne objectId]\<rparr>)"
      using ne assms(6,7)
      by (simp add: getReceiptById_def connectToDatabase_def findOne_def)
    show ?thesis using assms True
      by (simp add: updateReceiptById_handler_def g update_processingMetadata_undefined)
  next
    case False
    then have g: "getReceiptById w receiptId
        = (Inl (Error ''MongoDB connection failed''), w\<lparr>trace := trace w @ [Connect]\<rparr>)"
      using ne by (simp add: getReceiptById_def connectToDatabase_def)
    show ?thesis using assms False
      by (simp add: updateReceiptById_handler_def g)
  qed
qed

theorem update_without_processingMetadata_witness:
  "status (fst (updateReceiptById_handler accepts_alice 9 one_receipt
      (request_of ''PUT'' ''/507f1f77bcf86cd799439011''
         (JObj [''shareData'' \<mapsto> JObj [''items'' \<mapsto> JArr []]])))) = 500
   \<and> receipts (snd (updateReceiptById_handler accepts_alice 9 one_receipt
      (request_of ''PUT'' ''/507f1f77bcf86cd799439011''
         (JObj [''shareData'' \<mapsto> JObj [''items'' \<mapsto> JArr []]])))) = receipts one_receipt"
proof -
  let ?r = "request_of ''PUT'' ''/507f1f77bcf86cd799439011''
              (JObj [''shareData'' \<mapsto> JObj [''items'' \<mapsto> JArr []]])"
  have h1: "req_method ?r = ''PUT''" by simp
  have h2: "verifyAuthToken accepts_alice ?r = Some ''alice''" by simp
  have h3: "url_id (req_url ?r) = Some ''507f1f77bcf86cd799439011''" by simp
  have h4: "truthy (req_body ?r)" by simp
  have h5: "get (req_body ?r) ''processingMetadata'' = JUndefined" by simp
  show ?thesis
    using update_without_processingMetadata
      [OF h1 h2 h3 h4 h5 ObjectId_example one_receipt_document, of 9]
    by simp
qed

text \<open>
  Claim C9, as amended. A request whose bearer credential is absent or invalid
  (\<open>verifyAuthToken\<close> returns null) is answered 401 with \<open>success: false\<close> when it uses
  the endpoint's HTTP method, and 405 with \<open>success: false\<close> when it uses another one:
  the method is checked before the credential. In both cases the world is returned as it
  was: no document is changed, and no call of the store or of the extraction service is
  recorded.
\<close>

theorem unauthenticated_requests:
  assumes "verifyAuthToken v request = None"
  shows
   "saveReceipt v now newId w request =
      (if req_method request = ''POST'' then failure 401 ''Unauthorized: Authentication required''
       else failure 405 ''Method not allowed'', w)
    \<and> processReceipt v extract w request =
      (if req_method request = ''POST'' then failure 401 ''Unauthorized: Authentication required''
       else failure 405 ''Method not allowed'', w)
    \<and> loadReceiptById v isoString w request =
      (if req_method request = ''GET'' then failure 401 ''Unauthorized: Authentication required''
       else failure 405 ''Method not allowed'', w)
    \<and> updateReceiptById_handler v now w request =
      (if req_method request = ''PUT'' then failure 401 ''Unauthorized: Authentication required''
       else failure 405 ''Method not allowed'', w)
    \<and> (\<forall>code msg. status (failure code msg) = code
          \<and> get (payload (failure code msg)) ''success'' = JBool False)"
  using assms
  by (simp add: saveReceipt_def processReceipt_def loadReceiptById_def
      updateReceiptById_handler_def)

theorem unauthenticated_requests_witness:
  "status (fst (saveReceipt accepts_alice 9 ''507f1f77bcf86cd799439011'' one_receipt
       (anonymous ''POST'' ''/'' (JObj [''originalData'' \<mapsto> JObj Map.empty])))) = 401
   \<and> snd (saveReceipt accepts_alice 9 ''507f1f77bcf86cd799439011'' one_receipt
       (anonymous ''POST'' ''/'' (JObj [''originalData'' \<mapsto> JObj Map.empty]))) = one_receipt"
  using unauthenticated_requests
    [of accepts_alice "anonymous ''POST'' ''/'' (JObj [''originalData'' \<mapsto> JObj Map.empty])"
        9 "''507f1f77bcf86cd799439011''" one_receipt]
  by simp

text \<open>
  Claim C9 as stated fails for a request that carries no credential and uses another
  method than the endpoint's: a GET to \<open>save\<close> is answered 405, not 401.
\<close>

theorem unauthenticated_wrong_method_is_405:
  "verifyAuthToken accepts_alice (anonymous ''GET'' ''/'' JUndefined) = None
   \<and> status (fst (saveReceipt accepts_alice 9 ''507f1f77bcf86cd799439011'' empty_store
        (anonymous ''GET'' ''/'' JUndefined))) = 405"
  by (simp add: saveReceipt_def)


section \<open>Properties of the update operator\<close>

lemma split_from_nonempty: "split_from sep acc s \<noteq> []"
  by (induction sep acc s rule: split_from.induct) auto

lemma path_of_nonempty: "path_of k \<noteq> []"
  by (simp add: path_of_def js_split_def split_from_nonempty)

lemma path_of_undotted: "CHR ''.'' \<notin> set k \<Longrightarrow> path_of k = [k]"
proof -
  assume a: "CHR ''.'' \<notin> set k"
  have "\<forall>i. \<not> prefix ''.'' (drop i k)"
  proof
    fix i
    show "\<not> prefix ''.'' (drop i k)"
    proof
      assume "prefix ''.'' (drop i k)"
      then obtain zs where "drop i k = CHR ''.'' # zs" by (auto simp: prefix_def)
      then have "CHR ''.'' \<in> set (drop i k)" by simp
      then show False using a by (auto dest: in_set_dropD)
    qed
  qed
  from split_from_no_occurrence [OF this, of "[]"]
  show ?thesis by (simp add: path_of_def js_split_def)
qed

lemma path_of_plain: "plain_key k \<Longrightarrow> path_of k = [k]"
  by (simp add: plain_key_def path_of_undotted)

lemma set_at_field: "c \<noteq> ''$[]'' \<Longrightarrow> set_at [c] v (JObj d) = Inr (JObj (d(c \<mapsto> v)))"
  by (simp add: then_do_def)

lemma set_at_plain: "plain_key k \<Longrightarrow> set_at (path_of k) v (JObj d) = Inr (JObj (d(k \<mapsto> v)))"
proof -
  assume p: "plain_key k"
  then have "k \<noteq> ''$[]''" by (auto simp: plain_key_def)
  then have "set_at [k] v (JObj d) = Inr (JObj (d(k \<mapsto> v)))" by (rule set_at_field)
  then show ?thesis by (simp only: path_of_plain [OF p])
qed

text \<open>Writing at a path changes one top-level field, the first piece of the path.\<close>

lemma set_at_frame:
  "set_at (c # cs) v (JObj d) = Inr r \<Longrightarrow> \<exists>x. r = JObj (d(c \<mapsto> x))"
  by (auto simp: then_do_def split: if_splits sum.splits)

lemma write_paths_plain:
  "\<forall>k\<in>set ks. plain_key k \<Longrightarrow>
   write_paths ks set_fields d =
     Inr (\<lambda>f. if f \<in> set ks then (case set_fields f of None \<Rightarrow> d f | Some v \<Rightarrow> Some v)
               else d f)"
proof (induction ks arbitrary: d)
  case Nil
  then show ?case by simp
next
  case (Cons k ks)
  have pk: "plain_key k" and rest: "\<forall>k\<in>set ks. plain_key k" using Cons.prems by simp_all
  show ?case
  proof (cases "set_fields k")
    case None
    then show ?thesis using Cons.IH [OF rest, of d] by auto
  next
    case (Some v)
    have 1: "write_paths (k # ks) set_fields d = write_paths ks set_fields (d(k \<mapsto> v))"
      by (simp add: Some set_at_plain [OF pk] then_do_def)
    have 2: "(\<lambda>f. if f \<in> set ks
                  then (case set_fields f of None \<Rightarrow> (d(k \<mapsto> v)) f | Some v \<Rightarrow> Some v)
                  else (d(k \<mapsto> v)) f)
           = (\<lambda>f. if f \<in> set (k # ks)
                  then (case set_fields f of None \<Rightarrow> d f | Some v \<Rightarrow> Some v)
                  else d f)"
      by (rule ext) (simp add: Some split: option.splits)
    show ?thesis unfolding 1 Cons.IH [OF rest, of "d(k \<mapsto> v)"] 2 ..
  qed
qed

text \<open>On a \<open>$set\<close> document with plain fields, \<open>updateOne\<close> is the merge at top level.\<close>

lemma write_paths_merge:
  assumes "plain_fields set_fields"
  shows "write_paths (sorted_list_of_set (dom set_fields)) set_fields d = Inr (d ++ set_fields)"
proof -
  have f: "finite (dom set_fields)" and p: "\<forall>k\<in>dom set_fields. plain_key k"
    using assms by (simp_all add: plain_fields_def)
  have s: "set (sorted_list_of_set (dom set_fields)) = dom set_fields" using f by simp
  have "\<forall>k\<in>set (sorted_list_of_set (dom set_fields)). plain_key k" using p s by simp
  from write_paths_plain [OF this, of set_fields d]
  show ?thesis
    by (simp only: s) (auto simp: map_add_def dom_def split: option.splits)
qed

lemma accepted_set_plain: "plain_fields set_fields \<Longrightarrow> accepted_set set_fields"
proof -
  assume a: "plain_fields set_fields"
  have p: "\<And>k. k \<in> dom set_fields \<Longrightarrow> path_of k = [k] \<and> k \<noteq> [] \<and> \<not> prefix ''$'' k"
    using a by (auto simp: plain_fields_def plain_key_def path_of_undotted)
  show ?thesis
    unfolding accepted_set_def accepted_path_def
    using a p by (auto simp: plain_fields_def)
qed

lemma keeps_id_plain: "plain_fields set_fields \<Longrightarrow> keeps_id set_fields d"
  by (auto simp: keeps_id_def plain_fields_def plain_key_def path_of_undotted)

lemma updateOne_plain:
  assumes "plain_fields set_fields" and "\<not> refuses w set_fields"
  shows "updateOne objectId set_fields w =
     (case receipts w objectId of
        None \<Rightarrow> (Inr False, w\<lparr>trace := trace w @ [UpdateOne objectId]\<rparr>)
      | Some d \<Rightarrow>
          if refuses w (d ++ set_fields) then
            (Inl (Error ''The document cannot be written''),
             w\<lparr>trace := trace w @ [UpdateOne objectId]\<rparr>)
          else (Inr True,
                w\<lparr>receipts := (receipts w)(objectId \<mapsto> d ++ set_fields),
                  trace := trace w @ [UpdateOne objectId]\<rparr>))"
  using assms(2)
  by (simp add: updateOne_def accepted_set_plain [OF assms(1)] keeps_id_plain [OF assms(1)]
      write_paths_merge [OF assms(1)] split: option.splits)

lemma plain_fields_update:
  "plain_fields m \<Longrightarrow> plain_key k \<Longrightarrow> plain_fields (m(k \<mapsto> v))"
  by (auto simp: plain_fields_def)

lemma plain_key_examples [simp]:
  "plain_key ''createdAt''" "plain_key ''updatedAt''" "plain_key ''processingMetadata''"
  by (simp_all add: plain_key_def)

lemma plain_fields_set_fields_of:
  "plain_fields (spread_of updateData) \<Longrightarrow> plain_fields (set_fields_of now d updateData)"
  by (simp add: set_fields_of_def plain_fields_update)

text \<open>
  Whatever the \<open>$set\<close> document holds, a field that it names with a plain key gets the
  value given for that key: a path that leads into the field conflicts with the key, and
  every other path leaves the field alone.
\<close>

lemma write_paths_key:
  assumes "distinct ks" and "set_fields f = Some v" and "path_of f = [f]" and "f \<noteq> ''$[]''"
    and "\<forall>k\<in>set ks. k \<noteq> f \<longrightarrow> hd (path_of k) \<noteq> f"
    and "write_paths ks set_fields d = Inr d'"
  shows "d' f = (if f \<in> set ks then Some v else d f)"
  using assms(1,5,6)
proof (induction ks arbitrary: d)
  case Nil
  then show ?case by simp
next
  case (Cons k ks)
  have dk: "distinct ks" "k \<notin> set ks" using Cons.prems(1) by simp_all
  have rest: "\<forall>k\<in>set ks. k \<noteq> f \<longrightarrow> hd (path_of k) \<noteq> f" using Cons.prems(2) by simp
  show ?case
  proof (cases "set_fields k")
    case None
    then have "k \<noteq> f" using assms(2) by auto
    moreover have "write_paths ks set_fields d = Inr d'" using Cons.prems(3) None by simp
    ultimately show ?thesis using Cons.IH [OF dk(1) rest] by simp
  next
    case (Some x)
    obtain c cs where pc: "path_of k = c # cs"
      using path_of_nonempty [of k] by (cases "path_of k") auto
    from Cons.prems(3) Some obtain r where
      r: "set_at (c # cs) x (JObj d) = Inr r"
      and w: "write_paths ks set_fields (spread_of r) = Inr d'"
      by (auto simp: then_do_def pc split: sum.splits)
    from set_at_frame [OF r] obtain y where y: "r = JObj (d(c \<mapsto> y))" by blast
    note ih = Cons.IH [OF dk(1) rest w]
    show ?thesis
    proof (cases "k = f")
      case True
      have "c # cs = [f]" using pc True assms(3) by simp
      then have "r = JObj (d(f \<mapsto> x))" using r assms(4) by (simp add: then_do_def)
      moreover have "x = v" using Some True assms(2) by simp
      ultimately show ?thesis using ih dk(2) True by simp
    next
      case False
      then have "c \<noteq> f" using Cons.prems(2) pc by simp
      then show ?thesis using ih False y by simp
    qed
  qed
qed

lemma write_paths_field:
  assumes "accepted_set set_fields" and "set_fields f = Some v"
    and "CHR ''.'' \<notin> set f" and "f \<noteq> ''$[]''"
    and "write_paths (sorted_list_of_set (dom set_fields)) set_fields d = Inr d'"
  shows "d' f = Some v"
proof -
  have fin: "finite (dom set_fields)" using assms(1) by (simp add: accepted_set_def)
  have s: "set (sorted_list_of_set (dom set_fields)) = dom set_fields" using fin by simp
  have p: "path_of f = [f]" using assms(3) by (rule path_of_undotted)
  have c: "\<forall>k\<in>set (sorted_list_of_set (dom set_fields)). k \<noteq> f \<longrightarrow> hd (path_of k) \<noteq> f"
  proof (intro ballI impI)
    fix k
    assume k: "k \<in> set (sorted_list_of_set (dom set_fields))" and ne: "k \<noteq> f"
    have kd: "k \<in> dom set_fields" using k s by simp
    have fd: "f \<in> dom set_fields" using assms(2) by auto
    have "\<not> prefix (path_of f) (path_of k)"
      using assms(1) kd fd ne by (auto simp: accepted_set_def)
    then show "hd (path_of k) \<noteq> f"
      using path_of_nonempty [of k] by (cases "path_of k") (auto simp: p)
  qed
  have "d' f = (if f \<in> set (sorted_list_of_set (dom set_fields)) then Some v else d f)"
    by (rule write_paths_key [OF _ assms(2) p assms(4) c assms(5)]) simp
  then show ?thesis using s assms(2) by auto
qed

lemma write_paths_createdAt:
  assumes "accepted_set set_fields" and "set_fields ''createdAt'' = Some v"
    and "write_paths (sorted_list_of_set (dom set_fields)) set_fields d = Inr d'"
  shows "d' ''createdAt'' = Some v"
  by (rule write_paths_field [OF assms(1,2) _ _ assms(3)]) simp_all

text \<open>What \<open>updateOne\<close> can do to the collection.\<close>

lemma updateOne_cases:
  "(fst (updateOne objectId set_fields w) \<noteq> Inr True
      \<and> receipts (snd (updateOne objectId set_fields w)) = receipts w)
   \<or> (\<exists>d d'. receipts w objectId = Some d \<and> accepted_set set_fields \<and> keeps_id set_fields d
         \<and> write_paths (sorted_list_of_set (dom set_fields)) set_fields d = Inr d'
         \<and> updateOne objectId set_fields w =
             (Inr True, w\<lparr>receipts := (receipts w)(objectId \<mapsto> d'),
                          trace := trace w @ [UpdateOne objectId]\<rparr>))"
  by (auto simp: updateOne_def split: option.splits sum.splits if_splits)

section \<open>Properties of the update adapter\<close>

text \<open>The adapter, once it has found the document to update.\<close>

lemma updateReceiptById_run:
  assumes "receiptId \<noteq> []" "truthy updateData" "typeof_object updateData" "db_available w"
    "ObjectId receiptId = Some objectId" "receipts w objectId = Some d"
  shows "updateReceiptById now w receiptId updateData =
     (case updateOne objectId (set_fields_of now d updateData)
             (w\<lparr>trace := trace w @ [Connect, FindOne objectId]\<rparr>) of
        (Inl e, w3) \<Rightarrow> (False, w3)
      | (Inr matched, w3) \<Rightarrow> (matched, w3))"
  using assms
  by (simp add: updateReceiptById_def connectToDatabase_def findOne_def Let_def
      set_fields_of_def)

lemma updateReceiptById_found:
  assumes "receiptId \<noteq> []" "truthy updateData" "typeof_object updateData" "db_available w"
    "ObjectId receiptId = Some objectId" "receipts w objectId = Some d"
    "plain_fields (spread_of updateData)"
    "\<not> refuses w (set_fields_of now d updateData)"
    "\<not> refuses w (d ++ set_fields_of now d updateData)"
  shows "updateReceiptById now w receiptId updateData =
     (True, w\<lparr>receipts := (receipts w)(objectId \<mapsto> d ++ set_fields_of now d updateData),
              trace := trace w @ [Connect, FindOne objectId, UpdateOne objectId]\<rparr>)"
proof -
  let ?w2 = "w\<lparr>trace := trace w @ [Connect, FindOne objectId]\<rparr>"
  have r: "\<not> refuses ?w2 (set_fields_of now d updateData)" using assms(8) by simp
  show ?thesis
    using assms(6,9)
    by (simp add: updateReceiptById_run [OF assms(1-6)]
        updateOne_plain [OF plain_fields_set_fields_of [OF assms(7)] r])
qed

lemma updateOne_unmatched:
  "receipts w objectId = None \<Longrightarrow>
   fst (updateOne objectId set_fields w) \<noteq> Inr True
   \<and> receipts (snd (updateOne objectId set_fields w)) = receipts w"
  by (simp add: updateOne_def)

lemma updateReceiptById_not_found:
  assumes "\<not> (receiptId \<noteq> [] \<and> truthy updateData \<and> typeof_object updateData \<and> db_available w
        \<and> (\<exists>objectId d. ObjectId receiptId = Some objectId \<and> receipts w objectId = Some d))"
  shows "fst (updateReceiptById now w receiptId updateData) = False
     \<and> receipts (snd (updateReceiptById now w receiptId updateData)) = receipts w"
proof (cases "receiptId \<noteq> [] \<and> truthy updateData \<and> typeof_object updateData \<and> db_available w")
  case False
  then show ?thesis
    by (auto simp: updateReceiptById_def connectToDatabase_def)
next
  case True
  show ?thesis
  proof (cases "ObjectId receiptId")
    case None
    then show ?thesis using True by (simp add: updateReceiptById_def connectToDatabase_def)
  next
    case (Some objectId)
    then have n: "receipts w objectId = None" using assms True by auto
    define w2 where "w2 = w\<lparr>trace := trace w @ [Connect, FindOne objectId]\<rparr>"
    define set_fields where "set_fields = (spread_of updateData)(''updatedAt'' \<mapsto> JDate now)"
    have n2: "receipts w2 objectId = None" using n by (simp add: w2_def)
    have eq: "updateReceiptById now w receiptId updateData =
       (case updateOne objectId set_fields w2 of
          (Inl e, w3) \<Rightarrow> (False, w3)
        | (Inr matched, w3) \<Rightarrow> (matched, w3))"
      using True Some n
      by (simp add: updateReceiptById_def connectToDatabase_def findOne_def Let_def w2_def
          set_fields_def)
    obtain r w3 where u: "updateOne objectId set_fields w2 = (r, w3)"
      by (cases "updateOne objectId set_fields w2")
    from updateOne_unmatched [OF n2, of set_fields] u
    have "r \<noteq> Inr True" and "receipts w3 = receipts w" by (simp_all add: w2_def)
    then show ?thesis by (cases r) (auto simp: eq u)
  qed
qed

text \<open>What the adapter can do to the collection, whatever the patch.\<close>

lemma updateReceiptById_cases:
  "(fst (updateReceiptById now w receiptId updateData) = False
      \<and> receipts (snd (updateReceiptById now w receiptId updateData)) = receipts w)
   \<or> (\<exists>objectId d d'. ObjectId receiptId = Some objectId \<and> receipts w objectId = Some d
         \<and> accepted_set (set_fields_of now d updateData)
         \<and> keeps_id (set_fields_of now d updateData) d
         \<and> write_paths (sorted_list_of_set (dom (set_fields_of now d updateData)))
              (set_fields_of now d updateData) d = Inr d'
         \<and> fst (updateReceiptById now w receiptId updateData) = True
         \<and> receipts (snd (updateReceiptById now w receiptId updateData))
             = (receipts w)(objectId \<mapsto> d'))"
proof (cases "receiptId \<noteq> [] \<and> truthy updateData \<and> typeof_object updateData \<and> db_available w
        \<and> (\<exists>objectId d. ObjectId receiptId = Some objectId \<and> receipts w objectId = Some d)")
  case False
  from updateReceiptById_not_found [OF False, of now] show ?thesis by blast
next
  case True
  then obtain objectId d where o: "ObjectId receiptId = Some objectId"
    and d: "receipts w objectId = Some d" by blast
  define w2 where "w2 = w\<lparr>trace := trace w @ [Connect, FindOne objectId]\<rparr>"
  define set_fields where "set_fields = set_fields_of now d updateData"
  have eq: "updateReceiptById now w receiptId updateData =
     (case updateOne objectId set_fields w2 of
        (Inl e, w3) \<Rightarrow> (False, w3)
      | (Inr matched, w3) \<Rightarrow> (matched, w3))"
    unfolding w2_def set_fields_def
    using True o d by (intro updateReceiptById_run) auto
  have r2: "receipts w2 = receipts w" by (simp add: w2_def)
  from updateOne_cases [of objectId set_fields w2]
  show ?thesis
  proof
    assume a: "fst (updateOne objectId set_fields w2) \<noteq> Inr True
      \<and> receipts (snd (updateOne objectId set_fields w2)) = receipts w2"
    obtain r w3 where u: "updateOne objectId set_fields w2 = (r, w3)"
      by (cases "updateOne objectId set_fields w2")
    have "r \<noteq> Inr True" and "receipts w3 = receipts w" using a u r2 by simp_all
    then show ?thesis by (cases r) (auto simp: eq u)
  next
    assume "\<exists>d0 d'. receipts w2 objectId = Some d0 \<and> accepted_set set_fields
         \<and> keeps_id set_fields d0
         \<and> write_paths (sorted_list_of_set (dom set_fields)) set_fields d0 = Inr d'
         \<and> updateOne objectId set_fields w2 =
             (Inr True, w2\<lparr>receipts := (receipts w2)(objectId \<mapsto> d'),
                          trace := trace w2 @ [UpdateOne objectId]\<rparr>)"
    then obtain d0 d' where d0: "receipts w2 objectId = Some d0"
      and ac: "accepted_set set_fields" and ki: "keeps_id set_fields d0"
      and wp: "write_paths (sorted_list_of_set (dom set_fields)) set_fields d0 = Inr d'"
      and u: "updateOne objectId set_fields w2 =
             (Inr True, w2\<lparr>receipts := (receipts w2)(objectId \<mapsto> d'),
                          trace := trace w2 @ [UpdateOne objectId]\<rparr>)"
      by blast
    have d0d: "d0 = d" using d0 d r2 by simp
    have res: "fst (updateReceiptById now w receiptId updateData) = True"
      "receipts (snd (updateReceiptById now w receiptId updateData))
         = (receipts w)(objectId \<mapsto> d')"
      by (simp_all add: eq u r2)
    show ?thesis
      using o d ac ki wp res unfolding set_fields_def d0d by blast
  qed
qed

lemma updateReceiptById_createdAt:
  assumes "receipts w objectId = Some d" and "d ''createdAt'' = Some c" and "truthy c"
  shows "\<exists>d'. receipts (snd (updateReceiptById now w receiptId updateData)) objectId = Some d'
            \<and> d' ''createdAt'' = Some c"
  using updateReceiptById_cases [of now w receiptId updateData]
proof
  assume "fst (updateReceiptById now w receiptId updateData) = False
      \<and> receipts (snd (updateReceiptById now w receiptId updateData)) = receipts w"
  then show ?thesis using assms(1,2) by simp
next
  assume "\<exists>objectId d d'. ObjectId receiptId = Some objectId \<and> receipts w objectId = Some d
         \<and> accepted_set (set_fields_of now d updateData)
         \<and> keeps_id (set_fields_of now d updateData) d
         \<and> write_paths (sorted_list_of_set (dom (set_fields_of now d updateData)))
              (set_fields_of now d updateData) d = Inr d'
         \<and> fst (updateReceiptById now w receiptId updateData) = True
         \<and> receipts (snd (updateReceiptById now w receiptId updateData))
             = (receipts w)(objectId \<mapsto> d')"
  then obtain o2 d2 d' where d2: "receipts w o2 = Some d2"
    and ac: "accepted_set (set_fields_of now d2 updateData)"
    and wp: "write_paths (sorted_list_of_set (dom (set_fields_of now d2 updateData)))
              (set_fields_of now d2 updateData) d2 = Inr d'"
    and st: "receipts (snd (updateReceiptById now w receiptId updateData))
             = (receipts w)(o2 \<mapsto> d')"
    by blast
  show ?thesis
  proof (cases "o2 = objectId")
    case True
    then have "d2 = d" using d2 assms(1) by simp
    then have "set_fields_of now d2 updateData ''createdAt'' = Some c"
      using assms(2,3) by (simp add: set_fields_of_def)
    from write_paths_createdAt [OF ac this wp]
    show ?thesis using True by (simp add: st)
  next
    case False
    then show ?thesis using assms(1,2) by (simp add: st)
  qed
qed

lemma updateReceiptById_dom:
  assumes n: "receipts w objectId = None"
  shows "receipts (snd (updateReceiptById now w receiptId updateData)) objectId = None"
  using updateReceiptById_cases [of now w receiptId updateData] n by auto

lemma ObjectId_nonempty: "ObjectId s = Some t \<Longrightarrow> s \<noteq> []"
  by (auto simp: ObjectId_def split: if_splits)

text \<open>A patch that gives \<open>_id\<close> another value than the stored one is refused.\<close>

lemma updateReceiptById_id_refused:
  assumes "receipts w objectId = Some d" and "ObjectId receiptId = Some objectId"
    and "spread_of updateData ''_id'' = Some x" and "d ''_id'' \<noteq> Some x"
  shows "fst (updateReceiptById now w receiptId updateData) = False
     \<and> receipts (snd (updateReceiptById now w receiptId updateData)) = receipts w"
  using updateReceiptById_cases [of now w receiptId updateData]
proof
  assume "fst (updateReceiptById now w receiptId updateData) = False
      \<and> receipts (snd (updateReceiptById now w receiptId updateData)) = receipts w"
  then show ?thesis .
next
  assume "\<exists>objectId d d'. ObjectId receiptId = Some objectId \<and> receipts w objectId = Some d
         \<and> accepted_set (set_fields_of now d updateData)
         \<and> keeps_id (set_fields_of now d updateData) d
         \<and> write_paths (sorted_list_of_set (dom (set_fields_of now d updateData)))
              (set_fields_of now d updateData) d = Inr d'
         \<and> fst (updateReceiptById now w receiptId updateData) = True
         \<and> receipts (snd (updateReceiptById now w receiptId updateData))
             = (receipts w)(objectId \<mapsto> d')"
  then have k: "keeps_id (set_fields_of now d updateData) d" using assms(1,2) by auto
  have s: "set_fields_of now d updateData ''_id'' = Some x"
    using assms(3) by (simp add: set_fields_of_def)
  have "hd (path_of ''_id'') = ''_id''" by (simp add: path_of_undotted)
  then have "set_fields_of now d updateData ''_id'' = d ''_id''"
    using k s unfolding keeps_id_def by blast
  then show ?thesis using s assms(4) by simp
qed

text \<open>
  Claim C1, as amended. For every identifier and every patch object:
  \<open>updateReceiptById\<close> returns false, and leaves the collection as it was, when the
  identifier does not parse into an ObjectId (the empty identifier included), when no
  document matches, when the store cannot be reached, and when the patch gives \<open>_id\<close>
  another value than the matched document has (the server refuses the update and the
  function's \<open>catch\<close> returns false). When the store can be reached, a document
  matches, the patch has plain fields (finitely many keys, none of them empty, with a
  dot, starting with \<open>$\<close> or equal to \<open>_id\<close>) and the store does not refuse the
  write for reasons of its own (the size or depth of the documents, a NUL character in
  a field name), it returns true, whether or not any value changed, and replaces the
  matched document by one in which every key of the patch has the patch's value and
  every other key its old value, except that \<open>updatedAt\<close> is the current time and
  that \<open>createdAt\<close> keeps the existing document's value when it has one (a truthy
  one, as the source tests it: a Date is).
\<close>

theorem updateReceiptById_merge:
  "(ObjectId receiptId = None \<longrightarrow>
      fst (updateReceiptById now w receiptId (JObj patch)) = False
      \<and> receipts (snd (updateReceiptById now w receiptId (JObj patch))) = receipts w) \<and>
   (\<forall>objectId. ObjectId receiptId = Some objectId \<and> receipts w objectId = None \<longrightarrow>
      fst (updateReceiptById now w receiptId (JObj patch)) = False
      \<and> receipts (snd (updateReceiptById now w receiptId (JObj patch))) = receipts w) \<and>
   (\<not> db_available w \<longrightarrow>
      fst (updateReceiptById now w receiptId (JObj patch)) = False
      \<and> receipts (snd (updateReceiptById now w receiptId (JObj patch))) = receipts w) \<and>
   (\<forall>objectId d x. ObjectId receiptId = Some objectId \<and> receipts w objectId = Some d
        \<and> patch ''_id'' = Some x \<and> d ''_id'' \<noteq> Some x \<longrightarrow>
      fst (updateReceiptById now w receiptId (JObj patch)) = False
      \<and> receipts (snd (updateReceiptById now w receiptId (JObj patch))) = receipts w) \<and>
   (\<forall>objectId d. db_available w \<and> plain_fields patch \<and> ObjectId receiptId = Some objectId
        \<and> receipts w objectId = Some d
        \<and> \<not> refuses w (set_fields_of now d (JObj patch))
        \<and> \<not> refuses w (d ++ set_fields_of now d (JObj patch)) \<longrightarrow>
      fst (updateReceiptById now w receiptId (JObj patch)) = True
      \<and> (\<exists>d'. receipts (snd (updateReceiptById now w receiptId (JObj patch)))
                 = (receipts w)(objectId \<mapsto> d')
            \<and> (\<forall>k. k \<noteq> ''createdAt'' \<and> k \<noteq> ''updatedAt'' \<longrightarrow>
                   d' k = (case patch k of Some x \<Rightarrow> Some x | None \<Rightarrow> d k))
            \<and> d' ''updatedAt'' = Some (JDate now)
            \<and> d' ''createdAt'' =
                 (if truthy (get (JObj d) ''createdAt'') then d ''createdAt''
                  else (case patch ''createdAt'' of Some x \<Rightarrow> Some x | None \<Rightarrow> d ''createdAt''))))"
proof (intro conjI allI impI)
  assume a: "ObjectId receiptId = None"
  then have "\<not> (receiptId \<noteq> [] \<and> truthy (JObj patch) \<and> typeof_object (JObj patch)
        \<and> db_available w
        \<and> (\<exists>objectId d. ObjectId receiptId = Some objectId \<and> receipts w objectId = Some d))"
    by simp
  from updateReceiptById_not_found [OF this, of now]
  show "fst (updateReceiptById now w receiptId (JObj patch)) = False"
    and "receipts (snd (updateReceiptById now w receiptId (JObj patch))) = receipts w"
    by simp_all
next
  fix objectId
  assume a: "ObjectId receiptId = Some objectId \<and> receipts w objectId = None"
  then have "\<not> (receiptId \<noteq> [] \<and> truthy (JObj patch) \<and> typeof_object (JObj patch)
        \<and> db_available w
        \<and> (\<exists>objectId d. ObjectId receiptId = Some objectId \<and> receipts w objectId = Some d))"
    by auto
  from updateReceiptById_not_found [OF this, of now]
  show "fst (updateReceiptById now w receiptId (JObj patch)) = False"
    and "receipts (snd (updateReceiptById now w receiptId (JObj patch))) = receipts w"
    by simp_all
next
  assume a: "\<not> db_available w"
  then have "\<not> (receiptId \<noteq> [] \<and> truthy (JObj patch) \<and> typeof_object (JObj patch)
        \<and> db_available w
        \<and> (\<exists>objectId d. ObjectId receiptId = Some objectId \<and> receipts w objectId = Some d))"
    by simp
  from updateReceiptById_not_found [OF this, of now]
  show "fst (updateReceiptById now w receiptId (JObj patch)) = False"
    and "receipts (snd (updateReceiptById now w receiptId (JObj patch))) = receipts w"
    by simp_all
next
  fix objectId d x
  assume a: "ObjectId receiptId = Some objectId \<and> receipts w objectId = Some d
        \<and> patch ''_id'' = Some x \<and> d ''_id'' \<noteq> Some x"
  then have "spread_of (JObj patch) ''_id'' = Some x" by simp
  from updateReceiptById_id_refused [OF _ _ this, of w objectId d receiptId now] a
  show "fst (updateReceiptById now w receiptId (JObj patch)) = False"
    and "receipts (snd (updateReceiptById now w receiptId (JObj patch))) = receipts w"
    by simp_all
next
  fix objectId d
  assume a: "db_available w \<and> plain_fields patch \<and> ObjectId receiptId = Some objectId
        \<and> receipts w objectId = Some d
        \<and> \<not> refuses w (set_fields_of now d (JObj patch))
        \<and> \<not> refuses w (d ++ set_fields_of now d (JObj patch))"
  then have ne: "receiptId \<noteq> []" using ObjectId_nonempty by blast
  have eq: "updateReceiptById now w receiptId (JObj patch) =
     (True, w\<lparr>receipts := (receipts w)(objectId \<mapsto> d ++ set_fields_of now d (JObj patch)),
              trace := trace w @ [Connect, FindOne objectId, UpdateOne objectId]\<rparr>)"
    using a ne by (intro updateReceiptById_found) simp_all
  show "fst (updateReceiptById now w receiptId (JObj patch)) = True" by (simp add: eq)
  show "\<exists>d'. receipts (snd (updateReceiptById now w receiptId (JObj patch)))
                 = (receipts w)(objectId \<mapsto> d')
            \<and> (\<forall>k. k \<noteq> ''createdAt'' \<and> k \<noteq> ''updatedAt'' \<longrightarrow>
                   d' k = (case patch k of Some x \<Rightarrow> Some x | None \<Rightarrow> d k))
            \<and> d' ''updatedAt'' = Some (JDate now)
            \<and> d' ''createdAt'' =
                 (if truthy (get (JObj d) ''createdAt'') then d ''createdAt''
                  else (case patch ''createdAt'' of Some x \<Rightarrow> Some x | None \<Rightarrow> d ''createdAt''))"
    by (rule exI [of _ "d ++ set_fields_of now d (JObj patch)"])
       (auto simp: eq set_fields_of_def map_add_def split: option.splits)
qed

theorem updateReceiptById_merge_witness:
  "fst (updateReceiptById 9 one_receipt ''507f1f77bcf86cd799439011''
          (JObj [''shareData'' \<mapsto> JObj [''items'' \<mapsto> JArr []],
                 ''createdAt'' \<mapsto> JStr ''forged''])) = True
   \<and> (\<exists>d'. receipts (snd (updateReceiptById 9 one_receipt ''507f1f77bcf86cd799439011''
          (JObj [''shareData'' \<mapsto> JObj [''items'' \<mapsto> JArr []],
                 ''createdAt'' \<mapsto> JStr ''forged''])))
          ''507f1f77bcf86cd799439011'' = Some d'
        \<and> d' ''createdAt'' = Some (JDate 5)
        \<and> d' ''updatedAt'' = Some (JDate 9)
        \<and> d' ''shareData'' = Some (JObj [''items'' \<mapsto> JArr []])
        \<and> d' ''originalData'' = Some (JObj [''uri'' \<mapsto> JStr ''file.jpg'']))"
proof -
  let ?p = "[''shareData'' \<mapsto> JObj [''items'' \<mapsto> JArr []], ''createdAt'' \<mapsto> JStr ''forged'']"
  let ?d = "[''originalData'' \<mapsto> JObj [''uri'' \<mapsto> JStr ''file.jpg''],
             ''processingMetadata'' \<mapsto> JObj [''userId'' \<mapsto> JStr ''bob''],
             ''createdAt'' \<mapsto> JDate 5,
             ''updatedAt'' \<mapsto> JDate 5,
             ''_id'' \<mapsto> JObjectId ''507f1f77bcf86cd799439011'']"
  let ?u = "updateReceiptById 9 one_receipt ''507f1f77bcf86cd799439011'' (JObj ?p)"
  have pl: "plain_fields ?p" by (simp add: plain_fields_def plain_key_def)
  have prem: "db_available one_receipt \<and> plain_fields ?p
      \<and> ObjectId ''507f1f77bcf86cd799439011'' = Some ''507f1f77bcf86cd799439011''
      \<and> receipts one_receipt ''507f1f77bcf86cd799439011'' = Some ?d
      \<and> \<not> refuses one_receipt (set_fields_of 9 ?d (JObj ?p))
      \<and> \<not> refuses one_receipt (?d ++ set_fields_of 9 ?d (JObj ?p))"
    using ObjectId_example one_receipt_document pl by simp
  note r = updateReceiptById_merge
    [of "''507f1f77bcf86cd799439011''" 9 one_receipt ?p,
     THEN conjunct2, THEN conjunct2, THEN conjunct2, THEN conjunct2, rule_format, OF prem]
  from r have ok: "fst ?u = True" by (rule conjunct1)
  from r obtain d' where
    st: "receipts (snd ?u) = (receipts one_receipt)(''507f1f77bcf86cd799439011'' \<mapsto> d')"
    and other: "\<forall>k. k \<noteq> ''createdAt'' \<and> k \<noteq> ''updatedAt'' \<longrightarrow>
                   d' k = (case ?p k of Some x \<Rightarrow> Some x | None \<Rightarrow> ?d k)"
    and up: "d' ''updatedAt'' = Some (JDate 9)"
    and cr: "d' ''createdAt'' =
                 (if truthy (get (JObj ?d) ''createdAt'') then ?d ''createdAt''
                  else (case ?p ''createdAt'' of Some x \<Rightarrow> Some x | None \<Rightarrow> ?d ''createdAt''))"
    by blast
  have 1: "receipts (snd ?u) ''507f1f77bcf86cd799439011'' = Some d'" by (simp add: st)
  have 2: "d' ''createdAt'' = Some (JDate 5)" using cr by simp
  have 3: "d' ''shareData'' = Some (JObj [''items'' \<mapsto> JArr []])"
    using other [rule_format, of "''shareData''"] by simp
  have 4: "d' ''originalData'' = Some (JObj [''uri'' \<mapsto> JStr ''file.jpg''])"
    using other [rule_format, of "''originalData''"] by simp
  show ?thesis using ok 1 2 up 3 4 by blast
qed

text \<open>
  Claim C1 as stated fails. The identifier parses, the store can be reached and a
  document matches, and yet a patch that carries the \<open>_id\<close> of a loaded document (a
  string, where the stored \<open>_id\<close> is an ObjectId) is refused: the function returns
  false and the document is as it was. And a patch with the key \<open>originalData.uri\<close>
  is accepted, but it is no merge at top level: the stored \<open>originalData\<close>, which is no
  key of the patch, is changed, and no field named \<open>originalData.uri\<close> is written.
\<close>

theorem updateReceiptById_refuses_id_patch:
  "ObjectId ''507f1f77bcf86cd799439011'' = Some ''507f1f77bcf86cd799439011''
   \<and> db_available one_receipt
   \<and> receipts one_receipt ''507f1f77bcf86cd799439011'' \<noteq> None
   \<and> fst (updateReceiptById 9 one_receipt ''507f1f77bcf86cd799439011''
          (JObj [''_id'' \<mapsto> JStr ''507f1f77bcf86cd799439011'',
                 ''note'' \<mapsto> JStr ''hi''])) = False
   \<and> receipts (snd (updateReceiptById 9 one_receipt ''507f1f77bcf86cd799439011''
          (JObj [''_id'' \<mapsto> JStr ''507f1f77bcf86cd799439011'',
                 ''note'' \<mapsto> JStr ''hi'']))) = receipts one_receipt
   \<and> fst (updateReceiptById 9 one_receipt ''507f1f77bcf86cd799439011''
          (JObj [''originalData.uri'' \<mapsto> JStr ''other.jpg''])) = True
   \<and> map_option (\<lambda>d. (d ''originalData'', d ''originalData.uri''))
        (receipts (snd (updateReceiptById 9 one_receipt ''507f1f77bcf86cd799439011''
            (JObj [''originalData.uri'' \<mapsto> JStr ''other.jpg''])))
           ''507f1f77bcf86cd799439011'')
       = Some (Some (JObj [''uri'' \<mapsto> JStr ''other.jpg'']), None)"
proof -
  let ?i = "''507f1f77bcf86cd799439011''"
  let ?d = "[''originalData'' \<mapsto> JObj [''uri'' \<mapsto> JStr ''file.jpg''],
             ''processingMetadata'' \<mapsto> JObj [''userId'' \<mapsto> JStr ''bob''],
             ''createdAt'' \<mapsto> JDate 5,
             ''updatedAt'' \<mapsto> JDate 5,
             ''_id'' \<mapsto> JObjectId ?i]"
  have a: "spread_of (JObj [''_id'' \<mapsto> JStr ?i, ''note'' \<mapsto> JStr ''hi'']) ''_id''
             = Some (JStr ?i)" by simp
  have b: "?d ''_id'' \<noteq> Some (JStr ?i)" by simp
  note r = updateReceiptById_id_refused [OF one_receipt_document ObjectId_example a b, of 9]
  define D where "D = ?d"
  define S where "S = [''originalData.uri'' \<mapsto> JStr ''other.jpg'', ''updatedAt'' \<mapsto> JDate 9,
                       ''createdAt'' \<mapsto> JDate 5]"
  define D' where "D' = D(''createdAt'' \<mapsto> JDate 5,
                          ''originalData'' \<mapsto> JObj [''uri'' \<mapsto> JStr ''other.jpg''],
                          ''updatedAt'' \<mapsto> JDate 9)"
  have doc: "receipts one_receipt ?i = Some D" by (simp add: D_def one_receipt_document)
  have s: "set_fields_of 9 D (JObj [''originalData.uri'' \<mapsto> JStr ''other.jpg'']) = S"
    by (simp add: set_fields_of_def D_def S_def)
  have dm: "dom S = {''createdAt'', ''originalData.uri'', ''updatedAt''}"
    by (auto simp: S_def)
  have p: "path_of ''originalData.uri'' = [''originalData'', ''uri'']"
    "path_of ''createdAt'' = [''createdAt'']" "path_of ''updatedAt'' = [''updatedAt'']"
    by (simp_all add: path_of_def js_split_def)
  have ac: "accepted_set S" by (simp add: accepted_set_def dm p accepted_path_def)
  have ki: "keeps_id S D" by (simp add: keeps_id_def dm p)
  have wp: "write_paths (sorted_list_of_set (dom S)) S D = Inr D'"
    unfolding dm by (simp add: p then_do_def S_def D_def D'_def)
  have uo: "updateOne ?i S (one_receipt\<lparr>trace := trace one_receipt @ [Connect, FindOne ?i]\<rparr>)
      = (Inr True, one_receipt\<lparr>receipts := (receipts one_receipt)(?i \<mapsto> D'),
               trace := trace one_receipt @ [Connect, FindOne ?i] @ [UpdateOne ?i]\<rparr>)"
    by (simp add: updateOne_def ac ki wp doc)
  have u: "updateReceiptById 9 one_receipt ?i (JObj [''originalData.uri'' \<mapsto> JStr ''other.jpg''])
      = (True, one_receipt\<lparr>receipts := (receipts one_receipt)(?i \<mapsto> D'),
               trace := trace one_receipt @ [Connect, FindOne ?i] @ [UpdateOne ?i]\<rparr>)"
    unfolding updateReceiptById_run
      [of ?i "JObj [''originalData.uri'' \<mapsto> JStr ''other.jpg'']" one_receipt ?i D 9,
       OF _ _ _ db_available_one_receipt ObjectId_example doc, simplified]
      s uo
    by simp
  have D': "D' ''originalData'' = Some (JObj [''uri'' \<mapsto> JStr ''other.jpg''])"
    "D' ''originalData.uri'' = None"
    by (simp_all add: D'_def D_def)
  show ?thesis
    using r ObjectId_example one_receipt_document by (simp add: u D')

qed

section \<open>The creation time\<close>

lemma getReceiptById_receipts [simp]:
  "receipts (snd (getReceiptById w receiptId)) = receipts w"
  by (auto simp: getReceiptById_def connectToDatabase_def findOne_def split: option.splits)

text \<open>The update handler changes the collection only through the adapter.\<close>

lemma updateReceiptById_handler_world:
  "receipts (snd (updateReceiptById_handler v now w request)) = receipts w
   \<or> (\<exists>w1 receiptId updateData. receipts w1 = receipts w
         \<and> snd (updateReceiptById_handler v now w request)
             = snd (updateReceiptById now w1 receiptId updateData))"
proof (cases "req_method request = ''PUT''")
  case False
  then show ?thesis by (simp add: updateReceiptById_handler_def)
next
  case m: True
  show ?thesis
  proof (cases "verifyAuthToken v request")
    case None
    with m show ?thesis by (simp add: updateReceiptById_handler_def)
  next
    case u: (Some userId)
    show ?thesis
    proof (cases "url_id (req_url request)")
      case None
      with m u show ?thesis by (simp add: updateReceiptById_handler_def)
    next
      case rid: (Some receiptId)
      show ?thesis
      proof (cases "truthy (req_body request)")
        case False
        with m u rid show ?thesis by (simp add: updateReceiptById_handler_def)
      next
        case t: True
        obtain r1 w1 where g: "getReceiptById w receiptId = (r1, w1)"
          by (cases "getReceiptById w receiptId")
        have rw: "receipts w1 = receipts w"
          using getReceiptById_receipts [of w receiptId] g by simp
        show ?thesis
        proof (cases r1)
          case (Inl e)
          with m u rid t g rw show ?thesis by (simp add: updateReceiptById_handler_def)
        next
          case (Inr found)
          show ?thesis
          proof (cases found)
            case None
            with Inr m u rid t g rw show ?thesis by (simp add: updateReceiptById_handler_def)
          next
            case (Some existing)
            show ?thesis
            proof (cases "update_processingMetadata now userId existing (req_body request)")
              case (Inl e)
              with Some Inr m u rid t g rw show ?thesis
                by (simp add: updateReceiptById_handler_def)
            next
              case ud: (Inr updateData)
              have "snd (updateReceiptById_handler v now w request)
                  = snd (updateReceiptById now w1 receiptId updateData)"
                using ud Some Inr m u rid t g
                by (simp add: updateReceiptById_handler_def split: prod.splits)
              with rw show ?thesis by blast
            qed
          qed
        qed
      qed
    qed
  qed
qed

lemma createReceiptDocument_receipts:
  "receipts (snd (createReceiptDocument now newId w receiptData)) objectId = Some d \<Longrightarrow>
   receipts w objectId = Some d \<or> d ''createdAt'' = Some (JDate now)"
  by (auto simp: createReceiptDocument_def connectToDatabase_def insertOne_def Let_def
      split: option.splits if_splits jsval.splits)

text \<open>Every document of a collection that the program has written carries the Date
  that \<open>createReceiptDocument\<close> stamped on it.\<close>

lemma written_dated:
  "written w \<Longrightarrow> receipts w objectId = Some d \<Longrightarrow> \<exists>t. d ''createdAt'' = Some (JDate t)"
proof (induction arbitrary: objectId d rule: written.induct)
  case (empty w)
  then show ?case by simp
next
  case (created w now newId receiptData)
  from createReceiptDocument_receipts [OF created.prems]
  show ?case using created.IH by auto
next
  case (updated w now receiptId updateData)
  show ?case
  proof (cases "receipts w objectId")
    case None
    from updateReceiptById_dom [OF None, of now receiptId updateData]
    show ?thesis using updated.prems by simp
  next
    case (Some d0)
    from updated.IH [OF Some] obtain t where t: "d0 ''createdAt'' = Some (JDate t)" by blast
    have "truthy (JDate t)" by simp
    from updateReceiptById_createdAt [OF Some t this, of now receiptId updateData]
    show ?thesis using updated.prems by auto
  qed
next
  case (same w w')
  then show ?case by simp
qed

text \<open>
  Claim C2. In a collection that the program has written, every stored document has a
  \<open>createdAt\<close>, the Date stamped at its creation, and every call of the update
  adapter and every call of the update handler leaves every document's \<open>createdAt\<close>
  as it was, whatever the patch holds (a \<open>createdAt\<close> key included). The collection
  after the call is again one the program has written, so the same holds for every later
  update.
\<close>

theorem createdAt_never_overwritten:
  assumes "written w" and "receipts w objectId = Some d"
  shows "(\<exists>t. d ''createdAt'' = Some (JDate t))
    \<and> (\<exists>d'. receipts (snd (updateReceiptById now w receiptId updateData)) objectId = Some d'
            \<and> d' ''createdAt'' = d ''createdAt'')
    \<and> (\<exists>d'. receipts (snd (updateReceiptById_handler v now w request)) objectId = Some d'
            \<and> d' ''createdAt'' = d ''createdAt'')
    \<and> written (snd (updateReceiptById now w receiptId updateData))
    \<and> written (snd (updateReceiptById_handler v now w request))"
proof -
  from written_dated [OF assms] obtain t where t: "d ''createdAt'' = Some (JDate t)" by blast
  have tr: "truthy (JDate t)" by simp
  have a: "\<exists>d'. receipts (snd (updateReceiptById now w receiptId updateData)) objectId = Some d'
            \<and> d' ''createdAt'' = d ''createdAt''"
    using updateReceiptById_createdAt [OF assms(2) t tr, of now receiptId updateData] t by simp
  have b: "(\<exists>d'. receipts (snd (updateReceiptById_handler v now w request)) objectId = Some d'
            \<and> d' ''createdAt'' = d ''createdAt'')
        \<and> written (snd (updateReceiptById_handler v now w request))"
    using updateReceiptById_handler_world [of v now w request]
  proof
    assume same: "receipts (snd (updateReceiptById_handler v now w request)) = receipts w"
    then show ?thesis using assms by (auto intro: written.same)
  next
    assume "\<exists>w1 receiptId updateData. receipts w1 = receipts w
         \<and> snd (updateReceiptById_handler v now w request)
             = snd (updateReceiptById now w1 receiptId updateData)"
    then obtain w1 rid ud where w1: "receipts w1 = receipts w"
      and s: "snd (updateReceiptById_handler v now w request)
                = snd (updateReceiptById now w1 rid ud)"
      by blast
    have d1: "receipts w1 objectId = Some d" using w1 assms(2) by simp
    have wr: "written w1" using assms(1) w1 by (rule written.same)
    show ?thesis
      using updateReceiptById_createdAt [OF d1 t tr, of now rid ud] t s
        written.updated [OF wr, of now rid ud]
      by simp
  qed
  show ?thesis using t a b written.updated [OF assms(1), of now receiptId updateData] by blast
qed

lemma forged_createdAt_update_succeeds:
  "status (fst (updateReceiptById_handler accepts_alice 9 one_receipt
      (request_of ''PUT'' ''/507f1f77bcf86cd799439011''
         (JObj [''createdAt'' \<mapsto> JStr ''forged'',
                ''processingMetadata'' \<mapsto> JObj Map.empty])))) = 200"
  by (simp add: updateReceiptById_handler_def getReceiptById_def connectToDatabase_def
      findOne_def ObjectId_example one_receipt_def update_processingMetadata_def
      updateReceiptById_def updateOne_plain plain_fields_def plain_key_def)

theorem createdAt_never_overwritten_witness:
  "status (fst (updateReceiptById_handler accepts_alice 9 one_receipt
      (request_of ''PUT'' ''/507f1f77bcf86cd799439011''
         (JObj [''createdAt'' \<mapsto> JStr ''forged'',
                ''processingMetadata'' \<mapsto> JObj Map.empty])))) = 200
   \<and> (\<exists>d'. receipts (snd (updateReceiptById_handler accepts_alice 9 one_receipt
      (request_of ''PUT'' ''/507f1f77bcf86cd799439011''
         (JObj [''createdAt'' \<mapsto> JStr ''forged'',
                ''processingMetadata'' \<mapsto> JObj Map.empty])))) ''507f1f77bcf86cd799439011''
         = Some d' \<and> d' ''createdAt'' = Some (JDate 5))"
  using createdAt_never_overwritten [OF written_one_receipt one_receipt_document,
      of 9 "[]" JUndefined accepts_alice
         "request_of ''PUT'' ''/507f1f77bcf86cd799439011''
            (JObj [''createdAt'' \<mapsto> JStr ''forged'',
                   ''processingMetadata'' \<mapsto> JObj Map.empty])"]
    forged_createdAt_update_succeeds
  by simp


text \<open>
  The documents of \<open>foreign\<close>, which a payload with an \<open>_id\<close> of its own has
  created, are never updated: the update adapter and the update handler address
  documents by ObjectId, and leave \<open>foreign\<close> as it was.
\<close>

lemma updateOne_foreign:
  "foreign (snd (updateOne objectId set_fields w)) = foreign w"
  by (simp add: updateOne_def split: option.splits sum.splits)

lemma updateReceiptById_foreign:
  "foreign (snd (updateReceiptById now w receiptId updateData)) = foreign w"
proof -
  have c: "\<And>objectId set_fields w0.
      foreign (snd (case updateOne objectId set_fields w0 of
                      (Inl e, w3) \<Rightarrow> (False, w3)
                    | (Inr matched, w3) \<Rightarrow> (matched, w3))) = foreign w0"
  proof -
    fix objectId set_fields w0
    obtain r w3 where e: "updateOne objectId set_fields w0 = (r, w3)"
      by (cases "updateOne objectId set_fields w0")
    then have "foreign w3 = foreign w0" using updateOne_foreign [of objectId set_fields w0] by simp
    then show "foreign (snd (case updateOne objectId set_fields w0 of
                      (Inl e, w3) \<Rightarrow> (False, w3)
                    | (Inr matched, w3) \<Rightarrow> (matched, w3))) = foreign w0"
      by (cases r) (simp_all add: e)
  qed
  show ?thesis
    by (simp add: updateReceiptById_def connectToDatabase_def findOne_def Let_def c
        split: option.splits)
qed

lemma getReceiptById_foreign:
  "foreign (snd (getReceiptById w receiptId)) = foreign w"
  by (auto simp: getReceiptById_def connectToDatabase_def findOne_def split: option.splits)

lemma updateReceiptById_handler_foreign:
  "foreign (snd (updateReceiptById_handler v now w request)) = foreign w"
proof -
  have a: "\<And>w1 receiptId updateData.
      foreign (snd (case updateReceiptById now w1 receiptId updateData of
                      (success, w2) \<Rightarrow>
                        if \<not> success then (failure 500 ''Failed to update receipt'', w2)
                        else (\<lparr>status = 200,
                               payload = JObj [''id'' \<mapsto> JStr receiptId,
                                               ''success'' \<mapsto> JBool True]\<rparr>, w2)))
        = foreign w1"
  proof -
    fix w1 receiptId updateData
    obtain s w2 where e: "updateReceiptById now w1 receiptId updateData = (s, w2)"
      by (cases "updateReceiptById now w1 receiptId updateData")
    then have "foreign w2 = foreign w1"
      using updateReceiptById_foreign [of now w1 receiptId updateData] by simp
    then show "foreign (snd (case updateReceiptById now w1 receiptId updateData of
                      (success, w2) \<Rightarrow>
                        if \<not> success then (failure 500 ''Failed to update receipt'', w2)
                        else (\<lparr>status = 200,
                               payload = JObj [''id'' \<mapsto> JStr receiptId,
                                               ''success'' \<mapsto> JBool True]\<rparr>, w2)))
        = foreign w1"
      by (simp add: e)
  qed
  show ?thesis
  proof (cases "req_method request = ''PUT''")
    case False
    then show ?thesis by (simp add: updateReceiptById_handler_def)
  next
    case m: True
    show ?thesis
    proof (cases "verifyAuthToken v request")
      case None
      with m show ?thesis by (simp add: updateReceiptById_handler_def)
    next
      case u: (Some userId)
      show ?thesis
      proof (cases "url_id (req_url request)")
        case None
        with m u show ?thesis by (simp add: updateReceiptById_handler_def)
      next
        case rid: (Some receiptId)
        obtain r1 w1 where g: "getReceiptById w receiptId = (r1, w1)"
          by (cases "getReceiptById w receiptId")
        have fw: "foreign w1 = foreign w"
          using getReceiptById_foreign [of w receiptId] g by simp
        show ?thesis
          using m u rid g fw a
          by (auto simp: updateReceiptById_handler_def Let_def
              split: sum.splits option.splits)
      qed
    qed
  qed
qed

section \<open>Facts about JSON values\<close>

lemma is_json_defined: "is_json x \<Longrightarrow> x \<noteq> JUndefined"
  by (cases x) simp_all

lemma is_json_field: "is_json (JObj m) \<Longrightarrow> m k = Some x \<Longrightarrow> is_json x"
proof -
  assume a: "is_json (JObj m)" and b: "m k = Some x"
  from a have "case map_option is_json (m k) of None \<Rightarrow> True | Some b \<Rightarrow> b" by simp
  with b show ?thesis by simp
qed

lemma is_json_get: "is_json v \<Longrightarrow> get v k = JUndefined \<or> is_json (get v k)"
  by (cases v) (auto split: option.splits dest: is_json_field)

lemma drop_undefined_json: "is_json x \<Longrightarrow> drop_undefined (Some x) = Some x"
  by (cases x) simp_all

lemma undefined_to_null_json: "is_json x \<Longrightarrow> undefined_to_null x = x"
  by (cases x) simp_all

lemma to_json_id: "is_json v \<Longrightarrow> to_json isoString v = v"
proof (induction v)
  case (JArr xs)
  have "\<And>x. x \<in> set xs \<Longrightarrow> is_json x" using JArr.prems by (simp add: list_all_iff)
  then have "\<And>x. x \<in> set xs \<Longrightarrow> undefined_to_null (to_json isoString x) = x"
    using JArr.IH by (simp add: undefined_to_null_json)
  then have "map (\<lambda>x. undefined_to_null (to_json isoString x)) xs = xs"
    by (induction xs) simp_all
  then show ?case by (simp add: comp_def)
next
  case (JObj m)
  have "(\<lambda>k. drop_undefined (map_option (to_json isoString) (m k))) = m"
  proof
    fix k
    show "drop_undefined (map_option (to_json isoString) (m k)) = m k"
    proof (cases "m k")
      case None
      then show ?thesis by simp
    next
      case (Some x)
      have j: "is_json x" using JObj.prems Some by (rule is_json_field)
      have "x \<in> set_option (m k)" using Some by simp
      moreover have "m k \<in> range m" by simp
      ultimately have "to_json isoString x = x" using JObj.IH j by blast
      then show ?thesis using Some j by (simp add: drop_undefined_json)
    qed
  qed
  then show ?case by simp
qed (simp_all split: number.splits)


section \<open>Properties of save\<close>

lemma isArray_truthy: "isArray v \<Longrightarrow> truthy v"
  by (cases v) simp_all

lemma validateReceiptData_well_formed: "validateReceiptData data = well_formed_payload data"
  by (auto simp: validateReceiptData_def well_formed_payload_def present_def carries_items_def
      dest: isArray_truthy)

lemma truthy_get_object: "truthy (get v k) \<Longrightarrow> \<exists>m. v = JObj m"
  by (cases v) simp_all

lemma isArray_get_object: "isArray (get v k) \<Longrightarrow> \<exists>m. v = JObj m"
  by (cases v) simp_all

lemma well_formed_payload_object: "well_formed_payload data \<Longrightarrow> \<exists>m. data = JObj m"
  by (auto simp: well_formed_payload_def present_def dest: truthy_get_object)

lemma save_processingMetadata_absent:
  "\<not> truthy (get (JObj m) ''processingMetadata'') \<Longrightarrow>
   save_processingMetadata now userId (JObj m) =
     Inr (JObj (m(''processingMetadata'' \<mapsto>
        JObj [''processedAt'' \<mapsto> JDate now, ''source'' \<mapsto> JStr ''mobile_app'',
              ''userId'' \<mapsto> JStr userId])))"
  by (simp add: save_processingMetadata_def)

lemma save_processingMetadata_object:
  "get (JObj m) ''processingMetadata'' = JObj p \<Longrightarrow>
   save_processingMetadata now userId (JObj m) =
     Inr (JObj (m(''processingMetadata'' \<mapsto> JObj (p(''userId'' \<mapsto> JStr userId)))))"
  by (simp add: save_processingMetadata_def assign_in_def then_do_def)

text \<open>Whatever the metadata step returns differs from the payload in
  \<open>processingMetadata\<close> only.\<close>

lemma assign_object: "assign (JObj m) k x = Inr (JObj (m(k \<mapsto> x)))"
  by simp

lemma save_processingMetadata_frame:
  assumes "save_processingMetadata now userId (JObj m) = Inr r"
  shows "\<exists>m'. r = JObj m' \<and> (\<forall>k. k \<noteq> ''processingMetadata'' \<longrightarrow> m' k = m k)"
proof (cases "truthy (get (JObj m) ''processingMetadata'')")
  case False
  then show ?thesis using assms by (auto simp: save_processingMetadata_def)
next
  case True
  then obtain inner where
    "assign (get (JObj m) ''processingMetadata'') ''userId'' (JStr userId) = Inr inner"
    and "r = JObj (m(''processingMetadata'' \<mapsto> inner))"
    using assms
    by (auto simp: save_processingMetadata_def assign_in_def then_do_def split: sum.splits)
  then show ?thesis by simp
qed

text \<open>The insert of a payload that brings no \<open>_id\<close> of its own.\<close>

lemma createReceiptDocument_inserted:
  assumes "db_available w" and "receipts w newId = None"
    and "nullish (get (JObj m) ''_id'')" and "\<not> refuses w (document_of now (JObj m))"
  shows "createReceiptDocument now newId w (JObj m) =
     (Inr newId,
      w\<lparr>receipts := (receipts w)(newId \<mapsto>
            m(''createdAt'' \<mapsto> JDate now, ''updatedAt'' \<mapsto> JDate now,
              ''_id'' \<mapsto> JObjectId newId)),
        trace := trace w @ [Connect, InsertOne (JObjectId newId)]\<rparr>)"
  using assms
  by (simp add: createReceiptDocument_def connectToDatabase_def insertOne_def Let_def
      document_of_def)

lemma createReceiptDocument_failed:
  assumes "\<not> (db_available w \<and> receipts w newId = None
               \<and> \<not> refuses w (document_of now (JObj m)))"
    and "nullish (get (JObj m) ''_id'')"
  shows "\<exists>e w1. createReceiptDocument now newId w (JObj m) = (Inl e, w1)
           \<and> receipts w1 = receipts w"
  using assms
  by (auto simp: createReceiptDocument_def connectToDatabase_def insertOne_def Let_def
      document_of_def split: option.splits)

text \<open>The save handler, once the request is an authenticated POST.\<close>

lemma saveReceipt_authenticated:
  assumes "req_method request = ''POST''" and "verifyAuthToken v request = Some userId"
  shows "saveReceipt v now newId w request =
     (let receiptData = req_body request in
      if \<not> truthy receiptData then (failure 400 ''Receipt data is required'', w)
      else if \<not> validateReceiptData receiptData then
        (failure 400 ''Invalid receipt data structure. Missing required fields'', w)
      else (case save_processingMetadata now userId receiptData of
              Inl e \<Rightarrow> (failure 500 (''Failed to save receipt data: '' @ message e), w)
            | Inr receiptData' \<Rightarrow>
                (case createReceiptDocument now newId w receiptData' of
                   (Inl e, w1) \<Rightarrow> (failure 500 (''Database operation failed: '' @ message e), w1)
                 | (Inr documentId, w1) \<Rightarrow>
                     if documentId = [] then (failure 500 ''Failed to create receipt document'', w1)
                     else (\<lparr>status = 200,
                            payload = JObj [''id'' \<mapsto> JStr documentId,
                                            ''success'' \<mapsto> JBool True]\<rparr>, w1))))"
  using assms by (simp add: saveReceipt_def)

text \<open>
  Claim C4, as amended. For an authenticated POST to \<open>save\<close>: when the payload is well
  formed in the specification's sense, its \<open>processingMetadata\<close> is absent, falsy or an
  object, it brings no \<open>_id\<close> of its own (the field is absent or null), and the store
  accepts the insert (it can be reached, the ObjectId it generates is not in use, and it
  does not refuse the document for reasons of its own: its size or depth, a NUL
  character in a field name), the handler answers 200 with \<open>success: true\<close> and the generated identifier, which
  is not empty, and the document is stored under it. When the payload is not well formed
  (it lacks all three data fields, or has \<open>processedData\<close> or \<open>shareData\<close> without
  an \<open>items\<close> array), the handler answers 400 with \<open>success: false\<close> and the
  world is as it was.
\<close>

theorem saveReceipt_accepts_well_formed:
  assumes "req_method request = ''POST''" and "verifyAuthToken v request = Some userId"
  shows "(well_formed_payload (req_body request)
          \<and> (\<not> truthy (get (req_body request) ''processingMetadata'')
               \<or> (\<exists>p. get (req_body request) ''processingMetadata'' = JObj p))
          \<and> nullish (get (req_body request) ''_id'')
          \<and> db_available w \<and> receipts w newId = None \<and> ObjectId newId = Some newId
          \<and> (\<forall>r. save_processingMetadata now userId (req_body request) = Inr r
                 \<longrightarrow> \<not> refuses w (document_of now r)) \<longrightarrow>
            status (fst (saveReceipt v now newId w request)) = 200
            \<and> get (payload (fst (saveReceipt v now newId w request))) ''id'' = JStr newId
            \<and> newId \<noteq> []
            \<and> get (payload (fst (saveReceipt v now newId w request))) ''success'' = JBool True
            \<and> receipts (snd (saveReceipt v now newId w request)) newId \<noteq> None)
       \<and> (\<not> well_formed_payload (req_body request) \<longrightarrow>
            status (fst (saveReceipt v now newId w request)) = 400
            \<and> get (payload (fst (saveReceipt v now newId w request))) ''success'' = JBool False
            \<and> snd (saveReceipt v now newId w request) = w)"
proof (intro conjI impI)
  assume a: "well_formed_payload (req_body request)
          \<and> (\<not> truthy (get (req_body request) ''processingMetadata'')
               \<or> (\<exists>p. get (req_body request) ''processingMetadata'' = JObj p))
          \<and> nullish (get (req_body request) ''_id'')
          \<and> db_available w \<and> receipts w newId = None \<and> ObjectId newId = Some newId
          \<and> (\<forall>r. save_processingMetadata now userId (req_body request) = Inr r
                 \<longrightarrow> \<not> refuses w (document_of now r))"
  then have ne: "newId \<noteq> []" using ObjectId_nonempty by blast
  from a obtain m where m: "req_body request = JObj m"
    using well_formed_payload_object by blast
  have val: "validateReceiptData (JObj m)"
    using a m by (simp add: validateReceiptData_well_formed)
  from a m obtain r where r: "save_processingMetadata now userId (JObj m) = Inr r"
    using save_processingMetadata_absent [of m now userId]
      save_processingMetadata_object [of m _ now userId]
    by auto
  from save_processingMetadata_frame [OF r] obtain m'
    where pm: "save_processingMetadata now userId (JObj m) = Inr (JObj m')"
      and fr: "\<forall>k. k \<noteq> ''processingMetadata'' \<longrightarrow> m' k = m k"
    using r by blast
  have nid: "nullish (get (JObj m') ''_id'')" using a m fr by simp
  have acc: "\<not> refuses w (document_of now (JObj m'))" using a m pm by simp
  have cr: "createReceiptDocument now newId w (JObj m') =
     (Inr newId,
      w\<lparr>receipts := (receipts w)(newId \<mapsto>
            m'(''createdAt'' \<mapsto> JDate now, ''updatedAt'' \<mapsto> JDate now,
              ''_id'' \<mapsto> JObjectId newId)),
        trace := trace w @ [Connect, InsertOne (JObjectId newId)]\<rparr>)"
    using a nid acc by (intro createReceiptDocument_inserted) auto
  have "saveReceipt v now newId w request =
     (\<lparr>status = 200, payload = JObj [''id'' \<mapsto> JStr newId, ''success'' \<mapsto> JBool True]\<rparr>,
      w\<lparr>receipts := (receipts w)(newId \<mapsto>
            m'(''createdAt'' \<mapsto> JDate now, ''updatedAt'' \<mapsto> JDate now,
              ''_id'' \<mapsto> JObjectId newId)),
        trace := trace w @ [Connect, InsertOne (JObjectId newId)]\<rparr>)"
    using a ne by (simp add: saveReceipt_authenticated [OF assms] m val pm cr)
  then show "status (fst (saveReceipt v now newId w request)) = 200"
    and "get (payload (fst (saveReceipt v now newId w request))) ''id'' = JStr newId"
    and "newId \<noteq> []"
    and "get (payload (fst (saveReceipt v now newId w request))) ''success'' = JBool True"
    and "receipts (snd (saveReceipt v now newId w request)) newId \<noteq> None"
    using ne by simp_all
next
  assume n: "\<not> well_formed_payload (req_body request)"
  then have "saveReceipt v now newId w request =
      (if \<not> truthy (req_body request) then failure 400 ''Receipt data is required''
       else failure 400 ''Invalid receipt data structure. Missing required fields'', w)"
    by (simp add: saveReceipt_authenticated [OF assms] validateReceiptData_well_formed)
  then show "status (fst (saveReceipt v now newId w request)) = 400"
    and "get (payload (fst (saveReceipt v now newId w request))) ''success'' = JBool False"
    and "snd (saveReceipt v now newId w request) = w"
    by simp_all
qed

lemma is_json_latte: "is_json latte"
  by (simp add: latte_def)

lemma well_formed_latte: "well_formed_payload latte"
  by (simp add: latte_def well_formed_payload_def present_def carries_items_def)

lemma db_available_empty_store [simp]: "db_available empty_store"
  by (simp add: empty_store_def)

lemma receipts_empty_store [simp]: "receipts empty_store k = None"
  by (simp add: empty_store_def)

lemma refuses_empty_store [simp]: "\<not> refuses empty_store doc"
  by (simp add: empty_store_def)

lemma save_latte_ok:
  "status (fst (saveReceipt accepts_alice 5 ''507f1f77bcf86cd799439011'' empty_store
      (request_of ''POST'' ''/'' latte))) = 200
   \<and> db_available (snd (saveReceipt accepts_alice 5 ''507f1f77bcf86cd799439011'' empty_store
      (request_of ''POST'' ''/'' latte)))"
proof -
  have t: "truthy latte" by (simp add: latte_def)
  have pm: "save_processingMetadata 5 ''alice'' latte
      = Inr (JObj ((spread_of latte)(''processingMetadata'' \<mapsto>
          JObj [''processedAt'' \<mapsto> JDate 5, ''source'' \<mapsto> JStr ''mobile_app'',
                ''userId'' \<mapsto> JStr ''alice''])))"
    by (simp add: latte_def save_processingMetadata_def)
  have n: "nullish (get (JObj ((spread_of latte)(''processingMetadata'' \<mapsto>
          JObj [''processedAt'' \<mapsto> JDate 5, ''source'' \<mapsto> JStr ''mobile_app'',
                ''userId'' \<mapsto> JStr ''alice'']))) ''_id'')"
    by (simp add: latte_def)
  note cr = createReceiptDocument_inserted
    [where newId = "''507f1f77bcf86cd799439011''" and now = 5,
     OF db_available_empty_store receipts_empty_store n refuses_empty_store]
  show ?thesis
    by (simp add: saveReceipt_def Let_def validateReceiptData_well_formed well_formed_latte t pm
        cr)
qed

theorem saveReceipt_accepts_well_formed_witness:
  "status (fst (saveReceipt accepts_alice 5 ''507f1f77bcf86cd799439011'' empty_store
      (request_of ''POST'' ''/'' latte))) = 200
   \<and> get (payload (fst (saveReceipt accepts_alice 5 ''507f1f77bcf86cd799439011'' empty_store
      (request_of ''POST'' ''/'' latte)))) ''id'' = JStr ''507f1f77bcf86cd799439011''
   \<and> status (fst (saveReceipt accepts_alice 5 ''507f1f77bcf86cd799439011'' empty_store
      (request_of ''POST'' ''/'' (JObj [''note'' \<mapsto> JStr ''no data''])))) = 400"
proof -
  have h1: "\<And>b. req_method (request_of ''POST'' ''/'' b) = ''POST''" by simp
  have h2: "\<And>b. verifyAuthToken accepts_alice (request_of ''POST'' ''/'' b) = Some ''alice''"
    by simp
  have n: "\<not> well_formed_payload (JObj [''note'' \<mapsto> JStr ''no data''])"
    by (simp add: well_formed_payload_def present_def)
  show ?thesis
    using saveReceipt_accepts_well_formed
        [where request = "request_of ''POST'' ''/'' latte" and v = accepts_alice
           and w = empty_store and newId = "''507f1f77bcf86cd799439011''" and now = 5,
         OF h1 h2]
      saveReceipt_accepts_well_formed
        [where request = "request_of ''POST'' ''/'' (JObj [''note'' \<mapsto> JStr ''no data''])"
           and v = accepts_alice and w = empty_store
           and newId = "''507f1f77bcf86cd799439011''" and now = 5,
         OF h1 h2]
      well_formed_latte n ObjectId_example
    by (simp add: latte_def)
qed

text \<open>
  Claim C4 as stated fails for a well-formed payload whose \<open>processingMetadata\<close> is a
  truthy primitive: the handler takes the branch that sets \<open>userId\<close> on the supplied
  metadata (line 113), the assignment raises in strict code, and the outer \<open>catch\<close>
  answers 500. It also fails for a well-formed payload that brings the empty string as
  \<open>_id\<close>: the store keeps that \<open>_id\<close>, the adapter finds \<open>insertedId\<close> falsy and
  raises, and the handler answers 500.
\<close>

theorem saveReceipt_well_formed_but_500:
  "well_formed_payload (JObj [''originalData'' \<mapsto> JObj [''uri'' \<mapsto> JStr ''file.jpg''],
                               ''processingMetadata'' \<mapsto> JNum (Finite 5)])
   \<and> status (fst (saveReceipt accepts_alice 5 ''507f1f77bcf86cd799439011'' empty_store
        (request_of ''POST'' ''/''
           (JObj [''originalData'' \<mapsto> JObj [''uri'' \<mapsto> JStr ''file.jpg''],
                  ''processingMetadata'' \<mapsto> JNum (Finite 5)])))) = 500
   \<and> well_formed_payload (JObj [''originalData'' \<mapsto> JObj [''uri'' \<mapsto> JStr ''file.jpg''],
                                 ''_id'' \<mapsto> JStr []])
   \<and> fst (saveReceipt accepts_alice 5 ''507f1f77bcf86cd799439011'' empty_store
        (request_of ''POST'' ''/''
           (JObj [''originalData'' \<mapsto> JObj [''uri'' \<mapsto> JStr ''file.jpg''],
                  ''_id'' \<mapsto> JStr []])))
       = failure 500 ''Database operation failed: Failed to get insertedId from MongoDB''"
  by (simp add: saveReceipt_def validateReceiptData_def well_formed_payload_def present_def
      carries_items_def save_processingMetadata_def assign_in_def then_do_def Let_def
      createReceiptDocument_def connectToDatabase_def insertOne_def empty_store_def)

section \<open>Properties of load after save\<close>

lemma getReceiptById_found:
  assumes "db_available w" "ObjectId receiptId = Some objectId" "receipts w objectId = Some d"
  shows "getReceiptById w receiptId =
     (Inr (Some (JObj d)), w\<lparr>trace := trace w @ [Connect, FindOne objectId]\<rparr>)"
  using assms ObjectId_nonempty [OF assms(2)]
  by (simp add: getReceiptById_def connectToDatabase_def findOne_def)

lemma getReceiptById_Some:
  assumes "getReceiptById w receiptId = (Inr (Some existing), w1)"
  shows "\<exists>objectId d. db_available w \<and> ObjectId receiptId = Some objectId
           \<and> receipts w objectId = Some d \<and> existing = JObj d
           \<and> w1 = w\<lparr>trace := trace w @ [Connect, FindOne objectId]\<rparr>"
  using assms
  by (auto simp: getReceiptById_def connectToDatabase_def findOne_def
      split: if_splits option.splits)

lemma assign_in_object:
  "assign_in (JObj j) k k2 x = Inr r \<Longrightarrow> truthy (get (JObj j) k) \<Longrightarrow>
   k2 = ''documentId'' \<Longrightarrow> x = JStr receiptId \<Longrightarrow>
   r = JObj (j(k \<mapsto> with_documentId receiptId (get (JObj j) k)))"
  by (cases "get (JObj j) k") (auto simp: assign_in_def then_do_def split: option.splits)

lemma falsy_with_documentId: "\<not> truthy x \<Longrightarrow> with_documentId receiptId x = x"
  by (cases x) simp_all

lemma add_documentId_shape:
  assumes "add_documentId receiptId (JObj j) = Inr rd"
  shows "\<exists>r. rd = JObj r
      \<and> (\<forall>k. k \<noteq> ''shareData'' \<and> k \<noteq> ''processedData'' \<and> k \<noteq> ''documentId''
             \<and> k \<noteq> ''success'' \<longrightarrow> r k = j k)
      \<and> r ''documentId'' = Some (JStr receiptId)
      \<and> r ''success'' = Some (JBool True)
      \<and> get (JObj r) ''shareData'' = with_documentId receiptId (get (JObj j) ''shareData'')
      \<and> get (JObj r) ''processedData''
           = with_documentId receiptId (get (JObj j) ''processedData'')"
proof -
  obtain r1 where r1: "(if truthy (get (JObj j) ''shareData'')
              then assign_in (JObj j) ''shareData'' ''documentId'' (JStr receiptId)
              else Inr (JObj j)) = Inr r1"
    using assms by (auto simp: add_documentId_def then_do_def split: sum.splits)
  have s1: "r1 = JObj (if truthy (get (JObj j) ''shareData'')
      then j(''shareData'' \<mapsto> with_documentId receiptId (get (JObj j) ''shareData'')) else j)"
    using r1 assign_in_object [of j "''shareData''" "''documentId''" "JStr receiptId" r1 receiptId]
    by (auto split: if_splits)
  define j1 where "j1 = (if truthy (get (JObj j) ''shareData'')
      then j(''shareData'' \<mapsto> with_documentId receiptId (get (JObj j) ''shareData'')) else j)"
  have r1j: "r1 = JObj j1" using s1 by (simp add: j1_def)
  obtain r2 where r2: "(if truthy (get (JObj j1) ''processedData'')
              then assign_in (JObj j1) ''processedData'' ''documentId'' (JStr receiptId)
              else Inr (JObj j1)) = Inr r2"
    using assms r1
    by (auto simp: add_documentId_def then_do_def r1j [symmetric] split: sum.splits if_splits)
  define j2 where "j2 = (if truthy (get (JObj j1) ''processedData'')
      then j1(''processedData'' \<mapsto> with_documentId receiptId (get (JObj j1) ''processedData''))
      else j1)"
  have r2j: "r2 = JObj j2"
    using r2 assign_in_object [of j1 "''processedData''" "''documentId''" "JStr receiptId" r2
        receiptId]
    by (auto simp: j2_def split: if_splits)
  have rd: "rd = JObj (j2(''documentId'' \<mapsto> JStr receiptId, ''success'' \<mapsto> JBool True))"
    using assms r1 r2
    by (simp add: add_documentId_def then_do_def r1j r2j split: if_splits)
  have sd: "get (JObj j2) ''shareData'' = with_documentId receiptId (get (JObj j) ''shareData'')"
    by (simp add: j2_def j1_def falsy_with_documentId)
  have pd: "get (JObj j2) ''processedData''
      = with_documentId receiptId (get (JObj j) ''processedData'')"
    by (simp add: j2_def j1_def falsy_with_documentId)
  have oth: "\<forall>k. k \<noteq> ''shareData'' \<and> k \<noteq> ''processedData'' \<longrightarrow> j2 k = j k"
    by (simp add: j2_def j1_def)
  show ?thesis
    apply (rule exI [of _ "j2(''documentId'' \<mapsto> JStr receiptId, ''success'' \<mapsto> JBool True)"])
    using sd pd oth apply (simp add: rd)
    done
qed

text \<open>The load handler, once the request is an authenticated GET that names a stored
  document.\<close>

lemma loadReceiptById_found:
  assumes "req_method request = ''GET''" and "verifyAuthToken v request = Some userId"
    and "url_id (req_url request) = Some receiptId"
    and "db_available w" and "ObjectId receiptId = Some objectId"
    and "receipts w objectId = Some d"
  shows "fst (loadReceiptById v isoString w request) =
     (case add_documentId receiptId (to_json isoString (JObj d)) of
        Inl e \<Rightarrow> failure 500 (''Failed to load receipt: '' @ message e)
      | Inr responseData \<Rightarrow> \<lparr>status = 200, payload = responseData\<rparr>)"
  using assms
  by (simp add: loadReceiptById_def getReceiptById_found [OF assms(4,5,6)] split: sum.splits)

lemma loadReceiptById_200:
  assumes "req_method request = ''GET''" and "verifyAuthToken v request = Some userId"
    and "url_id (req_url request) = Some receiptId"
    and "db_available w" and "ObjectId receiptId = Some objectId"
    and "receipts w objectId = Some d"
    and "status (fst (loadReceiptById v isoString w request)) = 200"
  shows "add_documentId receiptId (to_json isoString (JObj d))
     = Inr (payload (fst (loadReceiptById v isoString w request)))"
  using assms(7) loadReceiptById_found [OF assms(1-6), of isoString]
  by (cases "add_documentId receiptId (to_json isoString (JObj d))") simp_all

lemma json_roundtrip_get:
  assumes "is_json (JObj m)" and "d k = m k"
  shows "get (to_json isoString (JObj d)) k = get (JObj m) k"
proof (cases "m k")
  case None
  then show ?thesis using assms(2) by simp
next
  case (Some x)
  have j: "is_json x" using assms(1) Some by (rule is_json_field)
  then show ?thesis using assms(2) Some
    by (simp add: to_json_id drop_undefined_json)
qed

lemma carries_items_object: "carries_items x \<Longrightarrow> \<exists>m. x = JObj m"
  unfolding carries_items_def by (rule isArray_get_object)

lemma add_documentId_succeeds:
  assumes "\<not> truthy (get (JObj j) ''shareData'') \<or> (\<exists>m. get (JObj j) ''shareData'' = JObj m)"
    and "\<not> truthy (get (JObj j) ''processedData'')
         \<or> (\<exists>m. get (JObj j) ''processedData'' = JObj m)"
  shows "\<exists>rd. add_documentId receiptId (JObj j) = Inr rd"
  using assms
  by (auto simp: add_documentId_def then_do_def assign_in_def)

text \<open>A successful save of a payload that brings no \<open>_id\<close> of its own, step by step.\<close>

lemma saveReceipt_200:
  assumes ok: "status (fst (saveReceipt v now newId w request)) = 200"
    and nid: "nullish (get (req_body request) ''_id'')"
  shows "\<exists>userId m m'.
      req_method request = ''POST'' \<and> verifyAuthToken v request = Some userId
      \<and> req_body request = JObj m \<and> well_formed_payload (JObj m)
      \<and> (\<forall>k. k \<noteq> ''processingMetadata'' \<longrightarrow> m' k = m k)
      \<and> db_available w \<and> receipts w newId = None \<and> newId \<noteq> []
      \<and> saveReceipt v now newId w request =
          (\<lparr>status = 200,
            payload = JObj [''id'' \<mapsto> JStr newId, ''success'' \<mapsto> JBool True]\<rparr>,
           w\<lparr>receipts := (receipts w)(newId \<mapsto>
                 m'(''createdAt'' \<mapsto> JDate now, ''updatedAt'' \<mapsto> JDate now,
                    ''_id'' \<mapsto> JObjectId newId)),
             trace := trace w @ [Connect, InsertOne (JObjectId newId)]\<rparr>)"
proof -
  have me: "req_method request = ''POST''"
    using ok by (auto simp: saveReceipt_def split: if_splits)
  obtain userId where u: "verifyAuthToken v request = Some userId"
    using ok me by (cases "verifyAuthToken v request") (auto simp: saveReceipt_def)
  note eq = saveReceipt_authenticated [OF me u, of now newId w]
  have t: "truthy (req_body request)"
    using ok by (auto simp: eq Let_def split: if_splits)
  have val: "validateReceiptData (req_body request)"
    using ok t by (auto simp: eq Let_def split: if_splits)
  then have wf: "well_formed_payload (req_body request)"
    by (simp add: validateReceiptData_well_formed)
  then obtain m where m: "req_body request = JObj m"
    using well_formed_payload_object by blast
  obtain r where r: "save_processingMetadata now userId (JObj m) = Inr r"
    using ok t val
    by (cases "save_processingMetadata now userId (JObj m)") (auto simp: eq Let_def m)
  from save_processingMetadata_frame [OF r] obtain m'
    where r': "r = JObj m'" and fr: "\<forall>k. k \<noteq> ''processingMetadata'' \<longrightarrow> m' k = m k"
    by blast
  have nid': "nullish (get (JObj m') ''_id'')" using nid m fr by simp
  have av3: "db_available w \<and> receipts w newId = None
      \<and> \<not> refuses w (document_of now (JObj m'))"
  proof (rule ccontr)
    assume "\<not> (db_available w \<and> receipts w newId = None
               \<and> \<not> refuses w (document_of now (JObj m')))"
    from createReceiptDocument_failed [OF this nid']
    obtain e w1 where "createReceiptDocument now newId w (JObj m') = (Inl e, w1)" by blast
    then show False using ok t val r r' by (simp add: eq Let_def m)
  qed
  then have av: "db_available w \<and> receipts w newId = None" by simp
  have cr: "createReceiptDocument now newId w (JObj m') =
     (Inr newId,
      w\<lparr>receipts := (receipts w)(newId \<mapsto>
            m'(''createdAt'' \<mapsto> JDate now, ''updatedAt'' \<mapsto> JDate now,
              ''_id'' \<mapsto> JObjectId newId)),
        trace := trace w @ [Connect, InsertOne (JObjectId newId)]\<rparr>)"
    using nid' av3 by (intro createReceiptDocument_inserted) auto
  have ne: "newId \<noteq> []"
    using ok t val r r' cr by (auto simp: eq Let_def m split: if_splits)
  have "saveReceipt v now newId w request =
          (\<lparr>status = 200,
            payload = JObj [''id'' \<mapsto> JStr newId, ''success'' \<mapsto> JBool True]\<rparr>,
           w\<lparr>receipts := (receipts w)(newId \<mapsto>
                 m'(''createdAt'' \<mapsto> JDate now, ''updatedAt'' \<mapsto> JDate now,
                    ''_id'' \<mapsto> JObjectId newId)),
             trace := trace w @ [Connect, InsertOne (JObjectId newId)]\<rparr>)"
    using t val r r' cr ne by (simp add: eq Let_def m)
  then show ?thesis using me u m wf fr av ne by auto
qed

text \<open>
  Claim C3, as amended. When \<open>save\<close> has succeeded on a payload that JSON carries
  unchanged (its numbers are finite) and that brings no \<open>_id\<close> of its own (the field
  is absent or null), the identifier that the store generated being the rendering of an
  ObjectId, every authenticated GET that loads the identifier returned by \<open>save\<close>,
  at a time when the store can be reached and holds the document as \<open>save\<close> left it,
  succeeds, and the document it returns has the \<open>originalData\<close> that was saved, the
  \<open>processedData\<close> and \<open>shareData\<close> that were saved with \<open>documentId\<close> added
  inside them when they are present, \<open>documentId\<close> at top level, and
  \<open>success: true\<close>.
\<close>

theorem load_after_save:
  assumes "status (fst (saveReceipt v now newId w request)) = 200"
    and "is_json (req_body request)"
    and "ObjectId newId = Some newId"
    and "req_method request' = ''GET''"
    and "verifyAuthToken v' request' = Some reader"
    and "url_id (req_url request') = Some newId"
    and "nullish (get (req_body request) ''_id'')"
    and "db_available w'"
    and "receipts w' newId = receipts (snd (saveReceipt v now newId w request)) newId"
  shows "get (payload (fst (saveReceipt v now newId w request))) ''id'' = JStr newId
    \<and> status (fst (loadReceiptById v' isoString w' request')) = 200
    \<and> get (payload (fst (loadReceiptById v' isoString w' request'))) ''originalData''
        = get (req_body request) ''originalData''
    \<and> get (payload (fst (loadReceiptById v' isoString w' request'))) ''processedData''
        = with_documentId newId (get (req_body request) ''processedData'')
    \<and> get (payload (fst (loadReceiptById v' isoString w' request'))) ''shareData''
        = with_documentId newId (get (req_body request) ''shareData'')
    \<and> get (payload (fst (loadReceiptById v' isoString w' request'))) ''documentId''
        = JStr newId
    \<and> get (payload (fst (loadReceiptById v' isoString w' request'))) ''success''
        = JBool True"
proof -
  from saveReceipt_200 [OF assms(1,7)] obtain userId m m' where
    m: "req_body request = JObj m" and wf: "well_formed_payload (JObj m)"
    and fr: "\<forall>k. k \<noteq> ''processingMetadata'' \<longrightarrow> m' k = m k"
    and av: "db_available w"
    and sv: "saveReceipt v now newId w request =
          (\<lparr>status = 200,
            payload = JObj [''id'' \<mapsto> JStr newId, ''success'' \<mapsto> JBool True]\<rparr>,
           w\<lparr>receipts := (receipts w)(newId \<mapsto>
                 m'(''createdAt'' \<mapsto> JDate now, ''updatedAt'' \<mapsto> JDate now,
                    ''_id'' \<mapsto> JObjectId newId)),
             trace := trace w @ [Connect, InsertOne (JObjectId newId)]\<rparr>)"
    by blast
  define d where "d = m'(''createdAt'' \<mapsto> JDate now, ''updatedAt'' \<mapsto> JDate now,
                    ''_id'' \<mapsto> JObjectId newId)"
  have w1: "db_available w'" "receipts w' newId = Some d"
    using assms(8,9) by (simp_all add: sv d_def)
  have jm: "is_json (JObj m)" using assms(2) m by simp
  have keys: "d ''originalData'' = m ''originalData''"
    "d ''processedData'' = m ''processedData''" "d ''shareData'' = m ''shareData''"
    using fr by (simp_all add: d_def)
  define J where "J = (\<lambda>k. drop_undefined (map_option (to_json isoString) (d k)))"
  have J: "to_json isoString (JObj d) = JObj J" by (simp add: J_def)
  have g: "get (JObj J) ''originalData'' = get (JObj m) ''originalData''"
    "get (JObj J) ''processedData'' = get (JObj m) ''processedData''"
    "get (JObj J) ''shareData'' = get (JObj m) ''shareData''"
    using json_roundtrip_get [of m d "''originalData''" isoString, OF jm keys(1)]
      json_roundtrip_get [of m d "''processedData''" isoString, OF jm keys(2)]
      json_roundtrip_get [of m d "''shareData''" isoString, OF jm keys(3)]
    by (simp_all only: J)
  have ob: "\<not> truthy (get (JObj J) ''shareData'') \<or> (\<exists>x. get (JObj J) ''shareData'' = JObj x)"
    "\<not> truthy (get (JObj J) ''processedData'')
       \<or> (\<exists>x. get (JObj J) ''processedData'' = JObj x)"
    using wf carries_items_object
    by (auto simp only: g well_formed_payload_def present_def)
  from add_documentId_succeeds [OF ob, of newId]
  obtain rd where rd: "add_documentId newId (JObj J) = Inr rd" by blast
  have rd': "add_documentId newId (to_json isoString (JObj d)) = Inr rd"
    using rd by (simp only: J)
  have ld: "fst (loadReceiptById v' isoString w' request') = \<lparr>status = 200, payload = rd\<rparr>"
    using loadReceiptById_found [OF assms(4,5,6) w1(1) assms(3) w1(2), of isoString]
    unfolding rd' by simp
  from add_documentId_shape [OF rd] obtain r where r: "rd = JObj r"
    and oth: "\<forall>k. k \<noteq> ''shareData'' \<and> k \<noteq> ''processedData'' \<and> k \<noteq> ''documentId''
             \<and> k \<noteq> ''success'' \<longrightarrow> r k = J k"
    and did: "r ''documentId'' = Some (JStr newId)"
    and suc: "r ''success'' = Some (JBool True)"
    and sd: "get (JObj r) ''shareData'' = with_documentId newId (get (JObj J) ''shareData'')"
    and pd: "get (JObj r) ''processedData''
           = with_documentId newId (get (JObj J) ''processedData'')"
    by blast
  let ?P = "payload (fst (loadReceiptById v' isoString w' request'))"
  have P: "?P = JObj r" by (simp add: ld r)
  have st: "status (fst (loadReceiptById v' isoString w' request')) = 200" by (simp add: ld)
  have "r ''originalData'' = J ''originalData''"
    using oth [rule_format, of "''originalData''"] by simp
  then have "get (JObj r) ''originalData'' = get (JObj J) ''originalData''" by simp
  then have c1: "get ?P ''originalData'' = get (req_body request) ''originalData''"
    by (simp only: P m g)
  have c2: "get ?P ''processedData'' = with_documentId newId (get (req_body request) ''processedData'')"
    using pd by (simp only: P m g)
  have c3: "get ?P ''shareData'' = with_documentId newId (get (req_body request) ''shareData'')"
    using sd by (simp only: P m g)
  have c4: "get ?P ''documentId'' = JStr newId" using did by (simp add: P)
  have c5: "get ?P ''success'' = JBool True" using suc by (simp add: P)
  have c0: "get (payload (fst (saveReceipt v now newId w request))) ''id'' = JStr newId"
    by (simp add: sv)
  show ?thesis using c0 st c1 c2 c3 c4 c5 by blast
qed

theorem load_after_save_witness:
  "get (get (payload (fst (loadReceiptById accepts_alice (\<lambda>t. ''T'')
       (snd (saveReceipt accepts_alice 5 ''507f1f77bcf86cd799439011'' empty_store
              (request_of ''POST'' ''/'' latte)))
       (request_of ''GET'' ''/507f1f77bcf86cd799439011'' JUndefined)))) ''processedData'')
     ''items''
     = JArr [JObj [''name'' \<mapsto> JStr ''Latte'', ''quantity'' \<mapsto> JNum (Finite 1),
                   ''total'' \<mapsto> JNum (Finite (9 / 2))]]
   \<and> get (get (payload (fst (loadReceiptById accepts_alice (\<lambda>t. ''T'')
       (snd (saveReceipt accepts_alice 5 ''507f1f77bcf86cd799439011'' empty_store
              (request_of ''POST'' ''/'' latte)))
       (request_of ''GET'' ''/507f1f77bcf86cd799439011'' JUndefined)))) ''processedData'')
     ''documentId'' = JStr ''507f1f77bcf86cd799439011''
   \<and> get (payload (fst (loadReceiptById accepts_alice (\<lambda>t. ''T'')
       (snd (saveReceipt accepts_alice 5 ''507f1f77bcf86cd799439011'' empty_store
              (request_of ''POST'' ''/'' latte)))
       (request_of ''GET'' ''/507f1f77bcf86cd799439011'' JUndefined)))) ''documentId''
     = JStr ''507f1f77bcf86cd799439011''"
proof -
  have h2: "is_json (req_body (request_of ''POST'' ''/'' latte))"
    by (simp add: is_json_latte)
  have h4: "req_method (request_of ''GET'' ''/507f1f77bcf86cd799439011'' JUndefined) = ''GET''"
    by simp
  have h5: "verifyAuthToken accepts_alice
      (request_of ''GET'' ''/507f1f77bcf86cd799439011'' JUndefined) = Some ''alice''"
    by simp
  have h6: "url_id (req_url (request_of ''GET'' ''/507f1f77bcf86cd799439011'' JUndefined))
      = Some ''507f1f77bcf86cd799439011''"
    by simp
  have h7: "nullish (get (req_body (request_of ''POST'' ''/'' latte)) ''_id'')"
    by (simp add: latte_def)
  have h8: "db_available (snd (saveReceipt accepts_alice 5 ''507f1f77bcf86cd799439011''
      empty_store (request_of ''POST'' ''/'' latte)))"
    by (rule save_latte_ok [THEN conjunct2])
  show ?thesis
    using load_after_save [OF save_latte_ok [THEN conjunct1] h2 ObjectId_example h4 h5 h6 h7 h8
        refl, of "\<lambda>t. ''T''"]
    by (simp add: latte_def)
qed

text \<open>
  Claim C3 as stated fails in two ways. A valid payload that brings its own \<open>_id\<close>, the
  string \<open>abc\<close>, is saved under that \<open>_id\<close>: \<open>save\<close> answers 200 with the
  identifier \<open>abc\<close>, and a load of that identifier, which is no rendering of an
  ObjectId, answers 404. And a valid payload whose \<open>originalData\<close> is an infinity (as
  parsed from the literal \<open>1e999\<close>) is saved and loaded, but the loaded
  \<open>originalData\<close> is null: it is not what was saved.
\<close>

theorem own_id_save_is_not_loadable:
  "status (fst (saveReceipt accepts_alice 5 ''507f1f77bcf86cd799439011'' empty_store
      (request_of ''POST'' ''/''
         (JObj [''_id'' \<mapsto> JStr ''abc'',
                ''originalData'' \<mapsto> JObj [''uri'' \<mapsto> JStr ''file.jpg'']])))) = 200
   \<and> get (payload (fst (saveReceipt accepts_alice 5 ''507f1f77bcf86cd799439011'' empty_store
      (request_of ''POST'' ''/''
         (JObj [''_id'' \<mapsto> JStr ''abc'',
                ''originalData'' \<mapsto> JObj [''uri'' \<mapsto> JStr ''file.jpg'']]))))) ''id''
       = JStr ''abc''
   \<and> status (fst (loadReceiptById accepts_alice show_nat
      (snd (saveReceipt accepts_alice 5 ''507f1f77bcf86cd799439011'' empty_store
         (request_of ''POST'' ''/''
            (JObj [''_id'' \<mapsto> JStr ''abc'',
                   ''originalData'' \<mapsto> JObj [''uri'' \<mapsto> JStr ''file.jpg'']]))))
      (request_of ''GET'' ''/abc'' JUndefined))) = 404
   \<and> status (fst (saveReceipt accepts_alice 5 ''507f1f77bcf86cd799439011'' empty_store
      (request_of ''POST'' ''/'' (JObj [''originalData'' \<mapsto> JNum PosInfinity])))) = 200
   \<and> status (fst (loadReceiptById accepts_alice show_nat
      (snd (saveReceipt accepts_alice 5 ''507f1f77bcf86cd799439011'' empty_store
         (request_of ''POST'' ''/'' (JObj [''originalData'' \<mapsto> JNum PosInfinity]))))
      (request_of ''GET'' ''/507f1f77bcf86cd799439011'' JUndefined))) = 200
   \<and> get (payload (fst (loadReceiptById accepts_alice show_nat
      (snd (saveReceipt accepts_alice 5 ''507f1f77bcf86cd799439011'' empty_store
         (request_of ''POST'' ''/'' (JObj [''originalData'' \<mapsto> JNum PosInfinity]))))
      (request_of ''GET'' ''/507f1f77bcf86cd799439011'' JUndefined)))) ''originalData''
       = JNull"
proof -
  have u: "url_id ''/abc'' = Some ''abc''" by (simp add: url_id_def js_split_def)
  have o: "ObjectId ''abc'' = None" by (simp add: ObjectId_def)
  have 1: "saveReceipt accepts_alice 5 ''507f1f77bcf86cd799439011'' empty_store
      (request_of ''POST'' ''/''
         (JObj [''_id'' \<mapsto> JStr ''abc'',
                ''originalData'' \<mapsto> JObj [''uri'' \<mapsto> JStr ''file.jpg'']]))
     = (\<lparr>status = 200, payload = JObj [''id'' \<mapsto> JStr ''abc'', ''success'' \<mapsto> JBool True]\<rparr>,
        empty_store\<lparr>foreign := [JStr ''abc'' \<mapsto>
            [''_id'' \<mapsto> JStr ''abc'',
             ''originalData'' \<mapsto> JObj [''uri'' \<mapsto> JStr ''file.jpg''],
             ''processingMetadata'' \<mapsto>
                JObj [''processedAt'' \<mapsto> JDate 5, ''source'' \<mapsto> JStr ''mobile_app'',
                      ''userId'' \<mapsto> JStr ''alice''],
             ''createdAt'' \<mapsto> JDate 5, ''updatedAt'' \<mapsto> JDate 5]],
          trace := [Connect, InsertOne (JStr ''abc'')]\<rparr>)"
    by (simp add: saveReceipt_def validateReceiptData_def save_processingMetadata_def
        createReceiptDocument_def connectToDatabase_def insertOne_def Let_def empty_store_def)
  have 2: "saveReceipt accepts_alice 5 ''507f1f77bcf86cd799439011'' empty_store
      (request_of ''POST'' ''/'' (JObj [''originalData'' \<mapsto> JNum PosInfinity]))
     = (\<lparr>status = 200,
         payload = JObj [''id'' \<mapsto> JStr ''507f1f77bcf86cd799439011'',
                         ''success'' \<mapsto> JBool True]\<rparr>,
        empty_store\<lparr>receipts := [''507f1f77bcf86cd799439011'' \<mapsto>
            [''originalData'' \<mapsto> JNum PosInfinity,
             ''processingMetadata'' \<mapsto>
                JObj [''processedAt'' \<mapsto> JDate 5, ''source'' \<mapsto> JStr ''mobile_app'',
                      ''userId'' \<mapsto> JStr ''alice''],
             ''createdAt'' \<mapsto> JDate 5, ''updatedAt'' \<mapsto> JDate 5,
             ''_id'' \<mapsto> JObjectId ''507f1f77bcf86cd799439011'']],
          trace := [Connect, InsertOne (JObjectId ''507f1f77bcf86cd799439011'')]\<rparr>)"
    by (simp add: saveReceipt_def validateReceiptData_def save_processingMetadata_def
        createReceiptDocument_def connectToDatabase_def insertOne_def Let_def empty_store_def)
  show ?thesis
    unfolding 1 2
    by (simp add: loadReceiptById_def getReceiptById_def connectToDatabase_def findOne_def u o
        ObjectId_example empty_store_def add_documentId_def assign_in_def then_do_def)
qed


section \<open>Properties of update\<close>

text \<open>The metadata step of the update handler succeeds on objects only, and changes
  \<open>processingMetadata\<close> only.\<close>

lemma update_processingMetadata_truthy:
  assumes "truthy (get updateData ''processingMetadata'')"
  shows "\<exists>m. updateData = JObj m
     \<and> update_processingMetadata now userId existing updateData =
        Inr (JObj (m(''processingMetadata'' \<mapsto>
          JObj ((spread_of (get updateData ''processingMetadata''))
                (''updatedAt'' \<mapsto> JDate now, ''userId'' \<mapsto> JStr userId,
                 ''updatedBy'' \<mapsto> JArr [JStr userId])))))"
proof -
  from assms obtain m where m: "updateData = JObj m" using truthy_get_object by blast
  show ?thesis using assms by (simp add: m update_processingMetadata_def Let_def)
qed

lemma update_processingMetadata_falsy:
  assumes "\<not> truthy (get updateData ''processingMetadata'')"
    and "update_processingMetadata now userId existing updateData = Inr r"
  shows "\<exists>m. updateData = JObj m
     \<and> r = JObj (m(''processingMetadata'' \<mapsto>
          JObj ((spread_of (if truthy (get existing ''processingMetadata'')
                            then get existing ''processingMetadata'' else JObj Map.empty))
                (''updatedAt'' \<mapsto> JDate now, ''userId'' \<mapsto> JUndefined,
                 ''updatedBy'' \<mapsto> JArr [JStr userId]))))"
proof -
  let ?s = "get updateData ''processingMetadata''"
  have nn: "\<not> nullish ?s" using assms by (auto simp: update_processingMetadata_def Let_def)
  then obtain m where m: "updateData = JObj m" by (cases updateData) simp_all
  have prim: "get ?s ''updatedBy'' = JUndefined" "get ?s ''userId'' = JUndefined"
    using assms(1) nn by (cases ?s; simp)+
  show ?thesis using assms nn prim
    by (simp add: m update_processingMetadata_def Let_def then_do_def)
qed

lemma update_processingMetadata_shape:
  assumes "update_processingMetadata now userId existing updateData = Inr r"
  shows "\<exists>m pm. updateData = JObj m \<and> r = JObj (m(''processingMetadata'' \<mapsto> JObj pm))
     \<and> pm ''updatedAt'' = Some (JDate now) \<and> pm ''updatedBy'' = Some (JArr [JStr userId])
     \<and> pm ''userId'' = Some (if truthy (get updateData ''processingMetadata'')
                               then JStr userId else JUndefined)"
proof (cases "truthy (get updateData ''processingMetadata'')")
  case True
  let ?pm = "(spread_of (get updateData ''processingMetadata''))
                (''updatedAt'' \<mapsto> JDate now, ''userId'' \<mapsto> JStr userId,
                 ''updatedBy'' \<mapsto> JArr [JStr userId])"
  from update_processingMetadata_truthy [OF True, of now userId existing] assms
  obtain m where m: "updateData = JObj m"
    and r: "r = JObj (m(''processingMetadata'' \<mapsto> JObj ?pm))"
    by auto
  have T: "truthy (get (JObj m) ''processingMetadata'')" using True by (simp add: m)
  show ?thesis
    by (rule exI [of _ m], rule exI [of _ ?pm]) (use T in \<open>simp add: m r\<close>)
next
  case False
  let ?pm = "(spread_of (if truthy (get existing ''processingMetadata'')
                            then get existing ''processingMetadata'' else JObj Map.empty))
                (''updatedAt'' \<mapsto> JDate now, ''userId'' \<mapsto> JUndefined,
                 ''updatedBy'' \<mapsto> JArr [JStr userId])"
  from update_processingMetadata_falsy [OF False assms]
  obtain m where m: "updateData = JObj m"
    and r: "r = JObj (m(''processingMetadata'' \<mapsto> JObj ?pm))"
    by auto
  have F: "\<not> truthy (get (JObj m) ''processingMetadata'')" using False by (simp add: m)
  show ?thesis
    by (rule exI [of _ m], rule exI [of _ ?pm]) (use F in \<open>simp add: m r\<close>)
qed

lemma updateReceiptById_db_available:
  "db_available (snd (updateReceiptById now w receiptId updateData)) = db_available w"
proof -
  have u: "\<And>objectId set_fields w0.
      db_available (snd (updateOne objectId set_fields w0)) = db_available w0"
    by (simp add: updateOne_def split: option.splits sum.splits)
  have c: "\<And>objectId set_fields w0.
      db_available (snd (case updateOne objectId set_fields w0 of
                           (Inl e, w3) \<Rightarrow> (False, w3)
                         | (Inr matched, w3) \<Rightarrow> (matched, w3))) = db_available w0"
  proof -
    fix objectId set_fields w0
    obtain r w3 where e: "updateOne objectId set_fields w0 = (r, w3)"
      by (cases "updateOne objectId set_fields w0")
    then have "db_available w3 = db_available w0" using u [of objectId set_fields w0] by simp
    then show "db_available (snd (case updateOne objectId set_fields w0 of
                           (Inl e, w3) \<Rightarrow> (False, w3)
                         | (Inr matched, w3) \<Rightarrow> (matched, w3))) = db_available w0"
      by (cases r) (simp_all add: e)
  qed
  show ?thesis
    by (simp add: updateReceiptById_def connectToDatabase_def findOne_def Let_def c
        split: option.splits)
qed

text \<open>A successful update, step by step: the handler has found the document \<open>d\<close>,
  rewritten the metadata of the patch, and the server has accepted the \<open>$set\<close> document
  and written its paths.\<close>

lemma updateReceiptById_handler_200:
  assumes ok: "status (fst (updateReceiptById_handler v now w request)) = 200"
  shows "\<exists>userId receiptId objectId d m pm d'.
      req_method request = ''PUT'' \<and> verifyAuthToken v request = Some userId
      \<and> url_id (req_url request) = Some receiptId
      \<and> db_available w \<and> ObjectId receiptId = Some objectId \<and> receipts w objectId = Some d
      \<and> req_body request = JObj m
      \<and> update_processingMetadata now userId (JObj d) (JObj m)
          = Inr (JObj (m(''processingMetadata'' \<mapsto> JObj pm)))
      \<and> accepted_set (set_fields_of now d (JObj (m(''processingMetadata'' \<mapsto> JObj pm))))
      \<and> write_paths
            (sorted_list_of_set
               (dom (set_fields_of now d (JObj (m(''processingMetadata'' \<mapsto> JObj pm))))))
            (set_fields_of now d (JObj (m(''processingMetadata'' \<mapsto> JObj pm)))) d = Inr d'
      \<and> receipts (snd (updateReceiptById_handler v now w request))
           = (receipts w)(objectId \<mapsto> d')
      \<and> db_available (snd (updateReceiptById_handler v now w request))"
proof -
  have m: "req_method request = ''PUT''"
    using ok by (auto simp: updateReceiptById_handler_def split: if_splits)
  obtain userId where u: "verifyAuthToken v request = Some userId"
    using ok m by (cases "verifyAuthToken v request") (auto simp: updateReceiptById_handler_def)
  obtain receiptId where rid: "url_id (req_url request) = Some receiptId"
    using ok m u by (cases "url_id (req_url request)") (auto simp: updateReceiptById_handler_def)
  have t: "truthy (req_body request)"
    using ok m u rid by (auto simp: updateReceiptById_handler_def Let_def split: if_splits)
  obtain r1 w1 where g: "getReceiptById w receiptId = (r1, w1)"
    by (cases "getReceiptById w receiptId")
  obtain existing where r1: "r1 = Inr (Some existing)"
    using ok m u rid t g
    by (cases r1; cases "projr r1")
       (auto simp: updateReceiptById_handler_def Let_def split: option.splits)
  from getReceiptById_Some [OF g [unfolded r1]]
  obtain objectId d where av: "db_available w" and oid: "ObjectId receiptId = Some objectId"
    and d: "receipts w objectId = Some d" and ex: "existing = JObj d"
    and w1: "w1 = w\<lparr>trace := trace w @ [Connect, FindOne objectId]\<rparr>"
    by blast
  obtain upd where upd: "update_processingMetadata now userId (JObj d) (req_body request) = Inr upd"
    using ok m u rid t g r1 ex
    by (cases "update_processingMetadata now userId (JObj d) (req_body request)")
       (auto simp: updateReceiptById_handler_def Let_def)
  from update_processingMetadata_shape [OF upd]
  obtain mm pm where b: "req_body request = JObj mm"
    and ud: "upd = JObj (mm(''processingMetadata'' \<mapsto> JObj pm))"
    by blast
  obtain success w2 where a: "updateReceiptById now w1 receiptId upd = (success, w2)"
    by (cases "updateReceiptById now w1 receiptId upd")
  have h: "updateReceiptById_handler v now w request =
     (if \<not> success then (failure 500 ''Failed to update receipt'', w2)
      else (\<lparr>status = 200,
             payload = JObj [''id'' \<mapsto> JStr receiptId, ''success'' \<mapsto> JBool True]\<rparr>, w2))"
    using m u rid t g r1 ex upd a by (simp add: updateReceiptById_handler_def)
  have s: "success" using ok by (auto simp: h split: if_splits)
  have w2: "snd (updateReceiptById_handler v now w request) = w2" using s by (simp add: h)
  have r1w: "receipts w1 = receipts w" and a1w: "db_available w1 = db_available w"
    by (simp_all add: w1)
  have av2: "db_available w2"
    using updateReceiptById_db_available [of now w1 receiptId upd] a a1w av by simp
  from updateReceiptById_cases [of now w1 receiptId upd] s a
  obtain o2 d2 d' where o2: "ObjectId receiptId = Some o2" and d2: "receipts w1 o2 = Some d2"
    and ac: "accepted_set (set_fields_of now d2 upd)"
    and wp: "write_paths (sorted_list_of_set (dom (set_fields_of now d2 upd)))
              (set_fields_of now d2 upd) d2 = Inr d'"
    and st: "receipts w2 = (receipts w1)(o2 \<mapsto> d')"
    by auto
  have e: "o2 = objectId" "d2 = d" using o2 oid d2 d r1w by simp_all
  have upd': "update_processingMetadata now userId (JObj d) (JObj mm)
      = Inr (JObj (mm(''processingMetadata'' \<mapsto> JObj pm)))"
    using upd b ud by simp
  note ac' = ac [unfolded e ud] and wp' = wp [unfolded e ud]
  have st': "receipts (snd (updateReceiptById_handler v now w request))
      = (receipts w)(objectId \<mapsto> d')"
    using st by (simp add: w2 r1w e)
  have av': "db_available (snd (updateReceiptById_handler v now w request))"
    using av2 by (simp add: w2)
  show ?thesis
    using m u rid av oid d b upd' ac' wp' st' av' by blast
qed

text \<open>The metadata that a successful step wrote.\<close>

lemma update_processingMetadata_eq:
  assumes "update_processingMetadata now userId existing (JObj m)
             = Inr (JObj (m(''processingMetadata'' \<mapsto> JObj pm)))"
  shows "pm ''updatedAt'' = Some (JDate now) \<and> pm ''updatedBy'' = Some (JArr [JStr userId])
     \<and> pm ''userId'' = Some (if truthy (get (JObj m) ''processingMetadata'')
                               then JStr userId else JUndefined)"
proof -
  from update_processingMetadata_shape [OF assms]
  obtain m2 pm2 where "JObj m = JObj m2"
    and e: "JObj (m(''processingMetadata'' \<mapsto> JObj pm))
              = JObj (m2(''processingMetadata'' \<mapsto> JObj pm2))"
    and p: "pm2 ''updatedAt'' = Some (JDate now)" "pm2 ''updatedBy'' = Some (JArr [JStr userId])"
      "pm2 ''userId'' = Some (if truthy (get (JObj m) ''processingMetadata'')
                               then JStr userId else JUndefined)"
    by blast
  from e have "(m(''processingMetadata'' \<mapsto> JObj pm)) ''processingMetadata''
      = (m2(''processingMetadata'' \<mapsto> JObj pm2)) ''processingMetadata''"
    by simp
  then have "pm = pm2" by simp
  with p show ?thesis by simp
qed

lemma set_fields_of_plain:
  "k \<noteq> ''createdAt'' \<Longrightarrow> k \<noteq> ''updatedAt'' \<Longrightarrow>
   set_fields_of now d (JObj m) k = m k"
  by (simp add: set_fields_of_def)

text \<open>What claim C5 states holds for every successful update whose patch carries
  truthy metadata.\<close>

lemma update_stamps_caller:
  assumes "status (fst (updateReceiptById_handler v now w request)) = 200"
    and "truthy (get (req_body request) ''processingMetadata'')"
    and "verifyAuthToken v request = Some userId"
    and "url_id (req_url request) = Some receiptId"
    and "ObjectId receiptId = Some objectId"
  shows "\<exists>d' pm. receipts (snd (updateReceiptById_handler v now w request)) objectId = Some d'
      \<and> d' ''processingMetadata'' = Some (JObj pm)
      \<and> pm ''userId'' = Some (JStr userId)
      \<and> pm ''updatedBy'' = Some (JArr [JStr userId])"
proof -
  from updateReceiptById_handler_200 [OF assms(1)] assms(3,4,5)
  obtain d m pm d' where b: "req_body request = JObj m"
    and up: "update_processingMetadata now userId (JObj d) (JObj m)
          = Inr (JObj (m(''processingMetadata'' \<mapsto> JObj pm)))"
    and ac: "accepted_set (set_fields_of now d (JObj (m(''processingMetadata'' \<mapsto> JObj pm))))"
    and wp: "write_paths
            (sorted_list_of_set
               (dom (set_fields_of now d (JObj (m(''processingMetadata'' \<mapsto> JObj pm))))))
            (set_fields_of now d (JObj (m(''processingMetadata'' \<mapsto> JObj pm)))) d = Inr d'"
    and st: "receipts (snd (updateReceiptById_handler v now w request))
           = (receipts w)(objectId \<mapsto> d')"
    by auto
  have t: "truthy (get (JObj m) ''processingMetadata'')" using assms(2) b by simp
  from update_processingMetadata_eq [OF up] t
  have p: "pm ''userId'' = Some (JStr userId)" "pm ''updatedBy'' = Some (JArr [JStr userId])"
    by simp_all
  have "set_fields_of now d (JObj (m(''processingMetadata'' \<mapsto> JObj pm))) ''processingMetadata''
      = Some (JObj pm)"
    by (simp add: set_fields_of_plain)
  from write_paths_field [OF ac this _ _ wp]
  have "d' ''processingMetadata'' = Some (JObj pm)" by simp
  then show ?thesis using p by (simp add: st)
qed

text \<open>
  Claim C5 fails on the code. A PUT whose \<open>processingMetadata\<close> is \<open>false\<close> takes the
  missing-metadata branch (lines 101 to 107), where \<open>updateData.processingMetadata.userId\<close>
  reads undefined without raising; the update is answered 200 with \<open>success: true\<close>, and
  the persisted metadata, whose \<open>userId\<close> was \<open>bob\<close>, now holds undefined for
  \<open>userId\<close>, not the caller \<open>alice\<close>.
\<close>

theorem update_with_false_metadata_drops_userId:
  "status (fst (updateReceiptById_handler accepts_alice 9 one_receipt
      (request_of ''PUT'' ''/507f1f77bcf86cd799439011''
         (JObj [''processingMetadata'' \<mapsto> JBool False])))) = 200
   \<and> get (payload (fst (updateReceiptById_handler accepts_alice 9 one_receipt
      (request_of ''PUT'' ''/507f1f77bcf86cd799439011''
         (JObj [''processingMetadata'' \<mapsto> JBool False]))))) ''success'' = JBool True
   \<and> map_option (\<lambda>d. get (get (JObj d) ''processingMetadata'') ''userId'')
        (receipts (snd (updateReceiptById_handler accepts_alice 9 one_receipt
           (request_of ''PUT'' ''/507f1f77bcf86cd799439011''
              (JObj [''processingMetadata'' \<mapsto> JBool False]))))
           ''507f1f77bcf86cd799439011'') = Some JUndefined
   \<and> map_option (\<lambda>d. get (get (JObj d) ''processingMetadata'') ''userId'')
        (receipts one_receipt ''507f1f77bcf86cd799439011'') = Some (JStr ''bob'')"
  by (simp add: updateReceiptById_handler_def getReceiptById_def connectToDatabase_def
      findOne_def ObjectId_example one_receipt_def update_processingMetadata_def
      updateReceiptById_def updateOne_plain plain_fields_def plain_key_def then_do_def
      Let_def map_add_def)

text \<open>
  Claim C6, as amended. After an update accepted with \<open>success: true\<close> whose body is the
  object \<open>patch\<close>, an object that JSON carries unchanged (its numbers are finite) and
  that has plain fields (finitely many keys, none of them empty, with a dot, starting
  with \<open>$\<close> or equal to \<open>_id\<close>), a load of the same identifier that succeeds
  returns a document in which every top-level key of the patch has the patch's value,
  except \<open>processingMetadata\<close> (the handler rewrites it), \<open>createdAt\<close> and
  \<open>updatedAt\<close> (the adapter sets them), \<open>documentId\<close> and \<open>success\<close> (the load
  handler sets them); \<open>shareData\<close> and \<open>processedData\<close> have the patch's value with
  \<open>documentId\<close> added; \<open>createdAt\<close> is the creation time the document had before
  the update; and \<open>updatedAt\<close> is the clock reading of the update, whatever the earlier
  \<open>updatedAt\<close> was.
\<close>

theorem load_after_update:
  assumes "status (fst (updateReceiptById_handler v now w request)) = 200"
    and "req_body request = JObj patch" and "is_json (JObj patch)"
    and "url_id (req_url request) = Some receiptId" and "ObjectId receiptId = Some objectId"
    and "receipts w objectId = Some d" and "d ''createdAt'' = Some (JDate created)"
    and "req_method request' = ''GET''" and "verifyAuthToken v' request' = Some reader"
    and "url_id (req_url request') = Some receiptId"
    and "status (fst (loadReceiptById v' isoString
                       (snd (updateReceiptById_handler v now w request)) request')) = 200"
    and "plain_fields patch"
  shows "(\<forall>k x. patch k = Some x \<and> k \<noteq> ''processingMetadata'' \<and> k \<noteq> ''createdAt''
            \<and> k \<noteq> ''updatedAt'' \<and> k \<noteq> ''documentId'' \<and> k \<noteq> ''success''
            \<and> k \<noteq> ''shareData'' \<and> k \<noteq> ''processedData'' \<longrightarrow>
          get (payload (fst (loadReceiptById v' isoString
                (snd (updateReceiptById_handler v now w request)) request'))) k = x)
    \<and> (\<forall>x. patch ''shareData'' = Some x \<longrightarrow>
          get (payload (fst (loadReceiptById v' isoString
                (snd (updateReceiptById_handler v now w request)) request'))) ''shareData''
            = with_documentId receiptId x)
    \<and> (\<forall>x. patch ''processedData'' = Some x \<longrightarrow>
          get (payload (fst (loadReceiptById v' isoString
                (snd (updateReceiptById_handler v now w request)) request'))) ''processedData''
            = with_documentId receiptId x)
    \<and> get (payload (fst (loadReceiptById v' isoString
                (snd (updateReceiptById_handler v now w request)) request'))) ''createdAt''
         = JStr (isoString created)
    \<and> get (payload (fst (loadReceiptById v' isoString
                (snd (updateReceiptById_handler v now w request)) request'))) ''updatedAt''
         = JStr (isoString now)
    \<and> get (payload (fst (loadReceiptById v' isoString
                (snd (updateReceiptById_handler v now w request)) request'))) ''documentId''
         = JStr receiptId
    \<and> get (payload (fst (loadReceiptById v' isoString
                (snd (updateReceiptById_handler v now w request)) request'))) ''success''
         = JBool True"
proof -
  define w1 where "w1 = snd (updateReceiptById_handler v now w request)"
  from updateReceiptById_handler_200 [OF assms(1)] assms(2,4,5,6)
  obtain pm d' where
    wp: "write_paths
            (sorted_list_of_set
               (dom (set_fields_of now d (JObj (patch(''processingMetadata'' \<mapsto> JObj pm))))))
            (set_fields_of now d (JObj (patch(''processingMetadata'' \<mapsto> JObj pm)))) d = Inr d'"
    and st: "receipts (snd (updateReceiptById_handler v now w request))
           = (receipts w)(objectId \<mapsto> d')"
    and av: "db_available (snd (updateReceiptById_handler v now w request))"
    by auto
  define D where
    "D = d ++ set_fields_of now d (JObj (patch(''processingMetadata'' \<mapsto> JObj pm)))"
  have "plain_fields (spread_of (JObj (patch(''processingMetadata'' \<mapsto> JObj pm))))"
    using assms(12) by (simp add: plain_fields_update)
  then have "plain_fields (set_fields_of now d (JObj (patch(''processingMetadata'' \<mapsto> JObj pm))))"
    by (rule plain_fields_set_fields_of)
  from write_paths_merge [OF this, of d] wp have "d' = D" by (simp add: D_def)
  then have w1: "db_available w1" "receipts w1 objectId = Some D"
    using av st by (simp_all add: w1_def)
  define J where "J = (\<lambda>k. drop_undefined (map_option (to_json isoString) (D k)))"
  have J: "to_json isoString (JObj D) = JObj J" by (simp add: J_def)
  let ?P = "payload (fst (loadReceiptById v' isoString w1 request'))"
  have lok: "status (fst (loadReceiptById v' isoString w1 request')) = 200"
    using assms(11) by (simp add: w1_def)
  have "add_documentId receiptId (to_json isoString (JObj D)) = Inr ?P"
    by (rule loadReceiptById_200 [OF assms(8,9,10) w1(1) assms(5) w1(2) lok])
  then have ad: "add_documentId receiptId (JObj J) = Inr ?P" by (simp only: J)
  from add_documentId_shape [OF ad] obtain r where P: "?P = JObj r"
    and oth: "\<forall>k. k \<noteq> ''shareData'' \<and> k \<noteq> ''processedData'' \<and> k \<noteq> ''documentId''
             \<and> k \<noteq> ''success'' \<longrightarrow> r k = J k"
    and did: "r ''documentId'' = Some (JStr receiptId)"
    and suc: "r ''success'' = Some (JBool True)"
    and sd: "get (JObj r) ''shareData'' = with_documentId receiptId (get (JObj J) ''shareData'')"
    and pd: "get (JObj r) ''processedData''
           = with_documentId receiptId (get (JObj J) ''processedData'')"
    by blast
  have tc: "truthy (get (JObj d) ''createdAt'')" using assms(7) by simp
  have Dc: "D ''createdAt'' = Some (JDate created)"
    using assms(7) by (simp add: D_def set_fields_of_def map_add_def)
  have Du: "D ''updatedAt'' = Some (JDate now)"
    using tc by (simp add: D_def set_fields_of_def map_add_def)
  have Dk: "D k = Some x" if "patch k = Some x" "k \<noteq> ''processingMetadata''"
      "k \<noteq> ''createdAt''" "k \<noteq> ''updatedAt''" for k x
    using that by (simp add: D_def set_fields_of_plain map_add_def)
  have Jk: "J k = Some x" if "patch k = Some x" "k \<noteq> ''processingMetadata''"
      "k \<noteq> ''createdAt''" "k \<noteq> ''updatedAt''" for k x
  proof -
    have j: "is_json x" using assms(3) that(1) by (rule is_json_field)
    show ?thesis using Dk [OF that] j by (simp add: J_def to_json_id drop_undefined_json)
  qed
  have c1: "get ?P k = x" if "patch k = Some x \<and> k \<noteq> ''processingMetadata''
            \<and> k \<noteq> ''createdAt'' \<and> k \<noteq> ''updatedAt'' \<and> k \<noteq> ''documentId''
            \<and> k \<noteq> ''success'' \<and> k \<noteq> ''shareData'' \<and> k \<noteq> ''processedData''"
      for k x
  proof -
    have "r k = J k" using oth that by simp
    moreover have "J k = Some x" using that by (intro Jk) simp_all
    ultimately show ?thesis by (simp add: P)
  qed
  have c2: "get ?P ''shareData'' = with_documentId receiptId x"
    if "patch ''shareData'' = Some x" for x
  proof -
    have "J ''shareData'' = Some x" using that by (intro Jk) simp_all
    then show ?thesis using sd by (simp add: P)
  qed
  have c3: "get ?P ''processedData'' = with_documentId receiptId x"
    if "patch ''processedData'' = Some x" for x
  proof -
    have "J ''processedData'' = Some x" using that by (intro Jk) simp_all
    then show ?thesis using pd by (simp add: P)
  qed
  have c4: "get ?P ''createdAt'' = JStr (isoString created)"
    using oth [rule_format, of "''createdAt''"] Dc by (simp add: P J_def)
  have c5: "get ?P ''updatedAt'' = JStr (isoString now)"
    using oth [rule_format, of "''updatedAt''"] Du by (simp add: P J_def)
  have c6: "get ?P ''documentId'' = JStr receiptId" using did by (simp add: P)
  have c7: "get ?P ''success'' = JBool True" using suc by (simp add: P)
  show ?thesis using c1 c2 c3 c4 c5 c6 c7 unfolding w1_def by blast
qed

lemmas evaluate_update =
  updateReceiptById_handler_def getReceiptById_def connectToDatabase_def findOne_def
  ObjectId_example one_receipt_def update_processingMetadata_def updateReceiptById_def
  updateOne_plain plain_fields_def plain_key_def then_do_def Let_def map_add_def

lemma update_note_ok:
  "status (fst (updateReceiptById_handler accepts_alice now one_receipt
      (request_of ''PUT'' ''/507f1f77bcf86cd799439011'' note_patch))) = 200"
  by (simp add: evaluate_update note_patch_def)

lemma update_note_world:
  "db_available (snd (updateReceiptById_handler accepts_alice now one_receipt
      (request_of ''PUT'' ''/507f1f77bcf86cd799439011'' note_patch)))
   \<and> receipts (snd (updateReceiptById_handler accepts_alice now one_receipt
      (request_of ''PUT'' ''/507f1f77bcf86cd799439011'' note_patch)))
      ''507f1f77bcf86cd799439011''
     = Some [''originalData'' \<mapsto> JObj [''uri'' \<mapsto> JStr ''file.jpg''],
             ''_id'' \<mapsto> JObjectId ''507f1f77bcf86cd799439011'',
             ''note'' \<mapsto> JStr ''hi'',
             ''shareData'' \<mapsto> JObj [''items'' \<mapsto> JArr []],
             ''processingMetadata'' \<mapsto>
                JObj [''updatedAt'' \<mapsto> JDate now, ''userId'' \<mapsto> JStr ''alice'',
                      ''updatedBy'' \<mapsto> JArr [JStr ''alice'']],
             ''updatedAt'' \<mapsto> JDate now,
             ''createdAt'' \<mapsto> JDate 5]"
  apply (simp add: evaluate_update note_patch_def)
  apply (rule ext)
  apply simp
  done

lemma load_note_ok:
  "status (fst (loadReceiptById accepts_alice show_nat
      (snd (updateReceiptById_handler accepts_alice 9 one_receipt
              (request_of ''PUT'' ''/507f1f77bcf86cd799439011'' note_patch)))
      (request_of ''GET'' ''/507f1f77bcf86cd799439011'' JUndefined))) = 200
   \<and> get (get (payload (fst (loadReceiptById accepts_alice show_nat
      (snd (updateReceiptById_handler accepts_alice 9 one_receipt
              (request_of ''PUT'' ''/507f1f77bcf86cd799439011'' note_patch)))
      (request_of ''GET'' ''/507f1f77bcf86cd799439011'' JUndefined)))) ''processingMetadata'')
        ''userId'' = JStr ''alice''"
proof -
  let ?w1 = "snd (updateReceiptById_handler accepts_alice 9 one_receipt
              (request_of ''PUT'' ''/507f1f77bcf86cd799439011'' note_patch))"
  let ?q = "request_of ''GET'' ''/507f1f77bcf86cd799439011'' JUndefined"
  have h1: "req_method ?q = ''GET''" by simp
  have h2: "verifyAuthToken accepts_alice ?q = Some ''alice''" by simp
  have h3: "url_id (req_url ?q) = Some ''507f1f77bcf86cd799439011''" by simp
  note w = update_note_world [of 9]
  show ?thesis
    unfolding loadReceiptById_found
      [OF h1 h2 h3 w [THEN conjunct1] ObjectId_example w [THEN conjunct2], of show_nat]
    by (simp add: add_documentId_def assign_in_def then_do_def)
qed

theorem load_after_update_witness:
  "get (payload (fst (loadReceiptById accepts_alice show_nat
      (snd (updateReceiptById_handler accepts_alice 9 one_receipt
              (request_of ''PUT'' ''/507f1f77bcf86cd799439011'' note_patch)))
      (request_of ''GET'' ''/507f1f77bcf86cd799439011'' JUndefined)))) ''note'' = JStr ''hi''
   \<and> get (payload (fst (loadReceiptById accepts_alice show_nat
      (snd (updateReceiptById_handler accepts_alice 9 one_receipt
              (request_of ''PUT'' ''/507f1f77bcf86cd799439011'' note_patch)))
      (request_of ''GET'' ''/507f1f77bcf86cd799439011'' JUndefined)))) ''shareData''
       = JObj [''items'' \<mapsto> JArr [], ''documentId'' \<mapsto> JStr ''507f1f77bcf86cd799439011'']
   \<and> get (payload (fst (loadReceiptById accepts_alice show_nat
      (snd (updateReceiptById_handler accepts_alice 9 one_receipt
              (request_of ''PUT'' ''/507f1f77bcf86cd799439011'' note_patch)))
      (request_of ''GET'' ''/507f1f77bcf86cd799439011'' JUndefined)))) ''createdAt'' = JStr ''5''
   \<and> get (payload (fst (loadReceiptById accepts_alice show_nat
      (snd (updateReceiptById_handler accepts_alice 9 one_receipt
              (request_of ''PUT'' ''/507f1f77bcf86cd799439011'' note_patch)))
      (request_of ''GET'' ''/507f1f77bcf86cd799439011'' JUndefined)))) ''updatedAt'' = JStr ''9''"
proof -
  let ?p = "request_of ''PUT'' ''/507f1f77bcf86cd799439011'' note_patch"
  let ?q = "request_of ''GET'' ''/507f1f77bcf86cd799439011'' JUndefined"
  let ?m = "[''note'' \<mapsto> JStr ''hi'',
             ''shareData'' \<mapsto> JObj [''items'' \<mapsto> JArr []],
             ''processingMetadata'' \<mapsto> JObj [''userId'' \<mapsto> JStr ''mallory'']]"
  have h2: "req_body ?p = JObj ?m" by (simp add: note_patch_def)
  have h3: "is_json (JObj ?m)" by simp
  have h4: "url_id (req_url ?p) = Some ''507f1f77bcf86cd799439011''" by simp
  have h7: "[''originalData'' \<mapsto> JObj [''uri'' \<mapsto> JStr ''file.jpg''],
             ''processingMetadata'' \<mapsto> JObj [''userId'' \<mapsto> JStr ''bob''],
             ''createdAt'' \<mapsto> JDate 5,
             ''updatedAt'' \<mapsto> JDate 5,
             ''_id'' \<mapsto> JObjectId ''507f1f77bcf86cd799439011''] ''createdAt''
            = Some (JDate 5)" by simp
  have h8: "req_method ?q = ''GET''" by simp
  have h9: "verifyAuthToken accepts_alice ?q = Some ''alice''" by simp
  have h10: "url_id (req_url ?q) = Some ''507f1f77bcf86cd799439011''" by simp
  have h12: "plain_fields ?m" by (simp add: plain_fields_def plain_key_def)
  have s: "show_nat 5 = ''5''" "show_nat 9 = ''9''" by (simp_all add: show_nat.simps)
  show ?thesis
    using load_after_update [OF update_note_ok h2 h3 h4 ObjectId_example one_receipt_document h7
        h8 h9 h10 load_note_ok [THEN conjunct1] h12]
    by (simp add: s)
qed

text \<open>
  Claim C6 as stated fails. The patch of \<open>note_patch\<close> is accepted and the load after it
  succeeds, but the loaded \<open>processingMetadata\<close> does not have the patch's value: its
  \<open>userId\<close> is the caller \<open>alice\<close>, not the \<open>mallory\<close> of the patch. And an update
  made at the clock reading of the original save (5) leaves \<open>updatedAt\<close> at that
  reading, not at a strictly later one.
\<close>

theorem update_overrides_patch_metadata:
  "status (fst (updateReceiptById_handler accepts_alice 9 one_receipt
      (request_of ''PUT'' ''/507f1f77bcf86cd799439011'' note_patch))) = 200
   \<and> get (get note_patch ''processingMetadata'') ''userId'' = JStr ''mallory''
   \<and> status (fst (loadReceiptById accepts_alice show_nat
      (snd (updateReceiptById_handler accepts_alice 9 one_receipt
              (request_of ''PUT'' ''/507f1f77bcf86cd799439011'' note_patch)))
      (request_of ''GET'' ''/507f1f77bcf86cd799439011'' JUndefined))) = 200
   \<and> get (get (payload (fst (loadReceiptById accepts_alice show_nat
      (snd (updateReceiptById_handler accepts_alice 9 one_receipt
              (request_of ''PUT'' ''/507f1f77bcf86cd799439011'' note_patch)))
      (request_of ''GET'' ''/507f1f77bcf86cd799439011'' JUndefined)))) ''processingMetadata'')
        ''userId'' = JStr ''alice''
   \<and> status (fst (updateReceiptById_handler accepts_alice 5 one_receipt
      (request_of ''PUT'' ''/507f1f77bcf86cd799439011'' note_patch))) = 200
   \<and> map_option (\<lambda>d. d ''updatedAt'')
        (receipts one_receipt ''507f1f77bcf86cd799439011'') = Some (Some (JDate 5))
   \<and> map_option (\<lambda>d. d ''updatedAt'')
        (receipts (snd (updateReceiptById_handler accepts_alice 5 one_receipt
           (request_of ''PUT'' ''/507f1f77bcf86cd799439011'' note_patch)))
         ''507f1f77bcf86cd799439011'') = Some (Some (JDate 5))"
  using update_note_ok [of 9] update_note_ok [of 5] load_note_ok
    update_note_world [of 5] one_receipt_document
  by (simp add: note_patch_def)

end
